theory Spec2Isabelle
  imports Complex_Main "HOL-Library.AList" "HOL-Library.Multiset"
begin

section \<open>Values of the backtest script\<close>

text \<open>
  The script \<^verbatim>\<open>backtest_script.py\<close> computes with Python and numpy floats. The
  embedding reads every finite float as the real number it stands for: rounding is left
  out, overflow is not. numpy does not raise on a division by zero or on an overflow: it
  yields \<^verbatim>\<open>inf\<close> or \<^verbatim>\<open>nan\<close> and goes on. A computed float is therefore a
  \<open>real option\<close>, with \<open>None\<close> for a non-finite result; the script never divides by
  and never compares such a value, so one absorbing element stands for both.
  A cell of a price table is a \<open>real option\<close> as well, \<open>None\<close> being pandas' null.
  A date is the number of days since 1970-01-01.
\<close>

type_synonym ticker = string
type_synonym date = int
type_synonym pyfloat = "real option"

text \<open>The largest finite double, and the result of an operation whose exact value is \<open>x\<close>.\<close>

definition float_max :: real where
  "float_max = (2 - 1 / 2 ^ 52) * 2 ^ 1023"

definition finite_float :: "real \<Rightarrow> pyfloat" where
  "finite_float x = (if \<bar>x\<bar> \<le> float_max then Some x else None)"

fun fadd :: "pyfloat \<Rightarrow> pyfloat \<Rightarrow> pyfloat" where
  "fadd (Some a) (Some b) = finite_float (a + b)"
| "fadd _ _ = None"

fun fmul :: "pyfloat \<Rightarrow> pyfloat \<Rightarrow> pyfloat" where
  "fmul (Some a) (Some b) = finite_float (a * b)"
| "fmul _ _ = None"

fun fdiv :: "pyfloat \<Rightarrow> pyfloat \<Rightarrow> pyfloat" where
  "fdiv (Some a) (Some b) = (if b = 0 then None else finite_float (a / b))"
| "fdiv _ _ = None"

text \<open>The sum of a list of computed floats, used to state what weights and holdings add up to.\<close>

fun fsum :: "pyfloat list \<Rightarrow> pyfloat" where
  "fsum [] = Some 0"
| "fsum (w # ws) = fadd w (fsum ws)"

text \<open>
  The command line arguments that the engine reads (\<^verbatim>\<open>parse_arguments\<close>, lines 39-95).
  The lookback window, the metric list, the risk-free rate and the output directory only
  reach the external collaborators and the log, and are left out.
\<close>

record args =
  start_date_backtest :: date
  end_date_backtest :: date
  initial_portfolio_value :: real
  rebalance_frequency :: string
  universe_tickers :: "ticker list"
  min_piotroski_score :: int
  min_quant_value_score :: real
  top_n_quant_value :: int
  max_selected_assets :: int
  min_alloc_asset :: real
  max_alloc_asset :: real

text \<open>The two checks of lines 85-88: \<^verbatim>\<open>parser.error\<close> ends the run when one fails.\<close>

definition alloc_bounds_accepted :: "args \<Rightarrow> bool" where
  "alloc_bounds_accepted a \<longleftrightarrow>
     (0 \<le> min_alloc_asset a \<and> min_alloc_asset a \<le> 1 \<and>
      0 \<le> max_alloc_asset a \<and> max_alloc_asset a \<le> 1) \<and>
     \<not> (min_alloc_asset a > max_alloc_asset a)"

subsection \<open>Python and numpy primitives\<close>

text \<open>\<^verbatim>\<open>int(x)\<close> on a float truncates towards zero.\<close>

definition py_int :: "real \<Rightarrow> int" where
  "py_int x = (if 0 \<le> x then \<lfloor>x\<rfloor> else \<lceil>x\<rceil>)"

text \<open>\<^verbatim>\<open>xs[:n]\<close>: a negative \<open>n\<close> counts from the end.\<close>

definition py_slice_to :: "'a list \<Rightarrow> int \<Rightarrow> 'a list" where
  "py_slice_to xs n =
     (if 0 \<le> n then take (nat n) xs else take (length xs - nat (- n)) xs)"

text \<open>\<^verbatim>\<open>np.clip(a, a_min, a_max)\<close> is \<^verbatim>\<open>minimum(a_max, maximum(a, a_min))\<close>.\<close>

definition np_clip :: "real \<Rightarrow> real \<Rightarrow> real \<Rightarrow> real" where
  "np_clip a a_min a_max = min a_max (max a a_min)"

text \<open>
  A dict is an association list in insertion order; storing under a key that is present
  overwrites in place (\<open>AList.update\<close>). A dict comprehension stores key after key.
\<close>

definition dict_comprehension :: "('k \<Rightarrow> 'v) \<Rightarrow> 'k list \<Rightarrow> ('k \<times> 'v) list" where
  "dict_comprehension f ks = fold (\<lambda>k d. AList.update k (f k) d) ks []"

section \<open>Allocation (lines 215-245)\<close>

text \<open>
  Lines 229-233: when the minimum allocation cannot be met by all selected assets, the
  selection is cut to \<^verbatim>\<open>int(1.0 / min_alloc_asset)\<close> tickers. The division is only
  evaluated when \<^verbatim>\<open>min_alloc_asset * num_selected > 1.0\<close>, where the divisor is
  positive.
\<close>

definition adjust_num_selected :: "args \<Rightarrow> ticker list \<Rightarrow> ticker list" where
  "adjust_num_selected a selected_tickers =
     (let num_selected = int (length selected_tickers) in
      if min_alloc_asset a * real_of_int num_selected > 1
      then py_slice_to selected_tickers (py_int (1 / min_alloc_asset a))
      else selected_tickers)"

text \<open>
  Lines 239-245, and again lines 275-278: the equal weight is clipped into the bounds and
  the clipped weights are divided by their sum. Called on a non-empty list only.
\<close>

definition final_weights_raw :: "args \<Rightarrow> ticker list \<Rightarrow> (ticker \<times> real) list" where
  "final_weights_raw a selected_tickers =
     (let weight_per_asset = 1 / real (length selected_tickers) in
      dict_comprehension
        (\<lambda>ticker. np_clip weight_per_asset (min_alloc_asset a) (max_alloc_asset a))
        selected_tickers)"

definition target_weights_of :: "args \<Rightarrow> ticker list \<Rightarrow> (ticker \<times> pyfloat) list" where
  "target_weights_of a selected_tickers =
     (let raw = final_weights_raw a selected_tickers;
          sum_weights = sum_list (map snd raw)
      in map (\<lambda>(ticker, w). (ticker, fdiv (Some w) (Some sum_weights))) raw)"

section \<open>Asset selection (lines 192-204)\<close>

text \<open>
  A row of the fundamentals table after scoring. The two scores come from the external
  scoring functions; the interface gives an integer and a real score per ticker.
\<close>

record asset_row =
  row_ticker :: ticker
  Piotroski_F_Score :: int
  Quant_Value_Score :: real

text \<open>\<^verbatim>\<open>df.head(n)\<close> is \<^verbatim>\<open>df.iloc[:n]\<close>.\<close>

definition df_head :: "'a list \<Rightarrow> int \<Rightarrow> 'a list" where
  "df_head rows n = py_slice_to rows n"

text \<open>
  Line 199 calls \<^verbatim>\<open>sort_values(by="Quant_Value_Score", ascending=False)\<close> with pandas'
  default \<^verbatim>\<open>kind='quicksort'\<close>. The sorting routine is pandas' and numpy's, not the
  script's: the selection takes it as the parameter \<open>sort_values\<close>.
\<close>

definition select_assets ::
  "(asset_row list \<Rightarrow> asset_row list) \<Rightarrow> args \<Rightarrow> asset_row list \<Rightarrow> ticker list" where
  "select_assets sort_values a df_fundamental =
     (let df_elegiveis = df_fundamental;
          df_elegiveis =
            (if min_piotroski_score a > 0
             then filter (\<lambda>r. Piotroski_F_Score r \<ge> min_piotroski_score a) df_elegiveis
             else df_elegiveis);
          df_elegiveis =
            (if min_quant_value_score a > 0
             then filter (\<lambda>r. Quant_Value_Score r \<ge> min_quant_value_score a) df_elegiveis
             else df_elegiveis);
          df_elegiveis = sort_values df_elegiveis;
          df_elegiveis =
            (if top_n_quant_value a > 0 then df_head df_elegiveis (top_n_quant_value a)
             else df_elegiveis)
      in map row_ticker (df_head df_elegiveis (max_selected_assets a)))"

section \<open>Price tables\<close>

text \<open>
  The price provider returns a table indexed by date with one column per ticker. A column
  lists its cells in index order.
\<close>

record price_table =
  df_index :: "date list"
  df_columns :: "(ticker \<times> real option list) list"

type_synonym provider = "ticker list \<Rightarrow> date \<Rightarrow> date \<Rightarrow> price_table"

text \<open>\<^verbatim>\<open>df.empty\<close>: one of the two axes has length zero.\<close>

definition df_empty :: "price_table \<Rightarrow> bool" where
  "df_empty df \<longleftrightarrow> df_index df = [] \<or> df_columns df = []"

text \<open>\<^verbatim>\<open>df.isnull().all().all()\<close>\<close>

definition df_all_null :: "price_table \<Rightarrow> bool" where
  "df_all_null df \<longleftrightarrow> list_all (\<lambda>(t, col). list_all (\<lambda>c. c = None) col) (df_columns df)"

fun ffill_from :: "real option \<Rightarrow> real option list \<Rightarrow> real option list" where
  "ffill_from prev [] = []"
| "ffill_from prev (None # cs) = prev # ffill_from prev cs"
| "ffill_from prev (Some v # cs) = Some v # ffill_from (Some v) cs"

definition ffill_column :: "real option list \<Rightarrow> real option list" where
  "ffill_column col = ffill_from None col"

definition bfill_column :: "real option list \<Rightarrow> real option list" where
  "bfill_column col = rev (ffill_from None (rev col))"

definition df_ffill :: "price_table \<Rightarrow> price_table" where
  "df_ffill df = df\<lparr>df_columns := map (\<lambda>(t, col). (t, ffill_column col)) (df_columns df)\<rparr>"

definition df_bfill :: "price_table \<Rightarrow> price_table" where
  "df_bfill df = df\<lparr>df_columns := map (\<lambda>(t, col). (t, bfill_column col)) (df_columns df)\<rparr>"

text \<open>\<^verbatim>\<open>df.iloc[0]\<close>, a series from ticker to cell; taken on a table that is not empty.\<close>

definition df_first_row :: "price_table \<Rightarrow> (ticker \<times> real option) list" where
  "df_first_row df =
     map (\<lambda>(t, col). (t, case col of [] \<Rightarrow> None | c # _ \<Rightarrow> c)) (df_columns df)"

text \<open>
  \<^verbatim>\<open>series.reindex(labels)[label]\<close>, and the test
  \<^verbatim>\<open>label in series and not pd.isnull(series[label])\<close>: the price, or \<open>None\<close>.
\<close>

definition series_price :: "(ticker \<times> real option) list \<Rightarrow> ticker \<Rightarrow> real option" where
  "series_price series t = (case map_of series t of Some (Some p) \<Rightarrow> Some p | _ \<Rightarrow> None)"

text \<open>
  The position of a date in the index, and the test of line 344 followed by
  \<^verbatim>\<open>df.loc[sim_date, ticker]\<close>: the price, or \<open>None\<close> when the column, the date or
  the value is missing.
\<close>

fun index_of :: "'a list \<Rightarrow> 'a \<Rightarrow> nat option" where
  "index_of [] x = None"
| "index_of (y # ys) x = (if y = x then Some 0 else map_option Suc (index_of ys x))"

definition df_loc :: "price_table \<Rightarrow> date \<Rightarrow> ticker \<Rightarrow> real option" where
  "df_loc df sim_date t =
     (case map_of (df_columns df) t of
        None \<Rightarrow> None
      | Some col \<Rightarrow>
          (case index_of (df_index df) sim_date of
             None \<Rightarrow> None
           | Some i \<Rightarrow> (if i < length col then col ! i else None)))"

section \<open>Portfolio state and history\<close>

text \<open>
  An entry of \<^verbatim>\<open>current_holdings\<close> has the keys \<^verbatim>\<open>shares\<close>,
  \<^verbatim>\<open>price_at_buy\<close>, \<^verbatim>\<open>weight\<close> (line 290); an entry of the log of a valued day has
  the keys \<^verbatim>\<open>shares\<close>, \<^verbatim>\<open>current_price\<close>, \<^verbatim>\<open>value\<close> (lines 347, 357). A
  snapshot holds entries of either shape.
\<close>

datatype holding_entry =
    Bought (shares: pyfloat) (price_at_buy: real) (weight: pyfloat)
  | Valued (shares: pyfloat) (current_price: real) (position_value: pyfloat)

type_synonym holdings_dict = "(ticker \<times> holding_entry) list"

record snapshot =
  snap_date :: date
  portfolio_value :: pyfloat
  holdings :: holdings_dict

record run_state =
  portfolio_history :: "snapshot list"
  current_portfolio_value :: pyfloat
  current_holdings :: holdings_dict

section \<open>Trade execution (lines 255-297)\<close>

text \<open>Lines 285-292: one pass of the loop over \<^verbatim>\<open>target_weights.items()\<close>.\<close>

definition buy ::
  "(ticker \<times> real option) list \<Rightarrow> pyfloat \<Rightarrow> ticker \<times> pyfloat \<Rightarrow> holdings_dict \<Rightarrow> holdings_dict" where
  "buy prices_on_rebalance_date total_value tw new_holdings =
     (case tw of (t, w) \<Rightarrow>
        (case series_price prices_on_rebalance_date t of
           Some price \<Rightarrow>
             (let amount_to_invest = fmul total_value w;
                  shares = fdiv amount_to_invest (Some price)
              in AList.update t (Bought shares price w) new_holdings)
         | None \<Rightarrow> new_holdings))"

definition execute_trades ::
  "(ticker \<times> real option) list \<Rightarrow> pyfloat \<Rightarrow> (ticker \<times> pyfloat) list \<Rightarrow> holdings_dict" where
  "execute_trades prices_on_rebalance_date total_value target_weights =
     fold (buy prices_on_rebalance_date total_value) target_weights []"

text \<open>What a rebalance prints, one tag per branch.\<close>

datatype rebalance_log =
    NoAssetsSelected
  | NoAssetsAfterAdjust
  | PricesUnavailable
  | NoAssetsAfterPriceDrop
  | NoTargetWeights
  | Rebalanced

text \<open>
  Lines 255-297. \<^verbatim>\<open>current_portfolio_value\<close> is not assigned anywhere in these lines.
\<close>

definition trade_executor ::
  "args \<Rightarrow> provider \<Rightarrow> date \<Rightarrow> run_state \<Rightarrow> ticker list \<Rightarrow> (ticker \<times> pyfloat) list
     \<Rightarrow> run_state \<times> rebalance_log" where
  "trade_executor a obter_dados_historicos_yf current_rebalance_date st selected_tickers
       target_weights =
     (if target_weights \<noteq> [] then
        (let prices_on_rebalance_date_df =
               obter_dados_historicos_yf selected_tickers current_rebalance_date
                 (current_rebalance_date + 3)
         in if df_empty prices_on_rebalance_date_df \<or> df_all_null prices_on_rebalance_date_df
            then (st, PricesUnavailable)
            else
              (let prices_on_rebalance_date =
                     df_first_row (df_bfill (df_ffill prices_on_rebalance_date_df));
                   missing_prices =
                     filter (\<lambda>t. series_price prices_on_rebalance_date t = None)
                       selected_tickers;
                   target_weights =
                     (if missing_prices \<noteq> [] then
                        (let selected_tickers =
                               filter (\<lambda>t. t \<notin> set missing_prices) selected_tickers
                         in if selected_tickers \<noteq> [] then target_weights_of a selected_tickers
                            else [])
                      else target_weights)
               in if target_weights \<noteq> [] then
                    (st\<lparr>current_holdings :=
                          execute_trades prices_on_rebalance_date (current_portfolio_value st)
                            target_weights\<rparr>,
                     Rebalanced)
                  else (st\<lparr>current_holdings := []\<rparr>, NoAssetsAfterPriceDrop)))
      else (st\<lparr>current_holdings := []\<rparr>, NoTargetWeights))"

text \<open>
  Lines 206-297: the rebalance on one date, from the selected tickers. The test of line
  217 holds in the branch it stands in.
\<close>

definition rebalance ::
  "args \<Rightarrow> provider \<Rightarrow> date \<Rightarrow> run_state \<Rightarrow> ticker list \<Rightarrow> run_state \<times> rebalance_log" where
  "rebalance a obter_dados_historicos_yf current_rebalance_date st selected_tickers =
     (if selected_tickers = [] then (st, NoAssetsSelected)
      else
        (let selected_tickers = adjust_num_selected a selected_tickers in
         if selected_tickers = [] then (st\<lparr>current_holdings := []\<rparr>, NoAssetsAfterAdjust)
         else
           trade_executor a obter_dados_historicos_yf current_rebalance_date st
             selected_tickers (target_weights_of a selected_tickers)))"

section \<open>Calendar\<close>

text \<open>
  pandas' timestamps follow the proleptic Gregorian calendar. Day 0 is Thursday
  1970-01-01; weekdays count from Monday = 0, as \<^verbatim>\<open>Timestamp.weekday()\<close> does.
\<close>

definition weekday :: "date \<Rightarrow> int" where
  "weekday d = (d + 3) mod 7"

text \<open>Year, month and day of the month of a day number.\<close>

definition civil_from_days :: "date \<Rightarrow> int \<times> int \<times> int" where
  "civil_from_days d =
     (let z = d + 719468;
          era = z div 146097;
          doe = z - era * 146097;
          yoe = (doe - doe div 1460 + doe div 36524 - doe div 146096) div 365;
          doy = doe - (365 * yoe + yoe div 4 - yoe div 100);
          mp = (5 * doy + 2) div 153;
          day_of_month = doy - (153 * mp + 2) div 5 + 1;
          m = (if mp < 10 then mp + 3 else mp - 9);
          y = yoe + era * 400
      in (if m \<le> 2 then y + 1 else y, m, day_of_month))"

text \<open>
  \<^verbatim>\<open>pd.date_range(start, end, freq='B')\<close>: the days from Monday to Friday between the
  two dates, both included.
\<close>

definition business_days :: "date \<Rightarrow> date \<Rightarrow> date list" where
  "business_days start_date end_date = filter (\<lambda>d. weekday d < 5) [start_date..end_date]"

text \<open>
  The offsets behind the aliases \<^verbatim>\<open>BMS\<close>, \<^verbatim>\<open>BQS\<close> and \<^verbatim>\<open>BYS\<close>: the first
  business day of a month, of a quarter (January, April, July, October) and of a year.
  \<^verbatim>\<open>pd.date_range(start, end, freq=...)\<close> lists the dates between the two that lie
  on the offset.
\<close>

datatype offset = BMS | BQS | BYS

definition first_business_day_of_month :: "date \<Rightarrow> bool" where
  "first_business_day_of_month d =
     (case civil_from_days d of (y, m, day_in_month) \<Rightarrow>
        weekday d < 5 \<and> (day_in_month = 1 \<or> (weekday d = 0 \<and> (day_in_month = 2 \<or> day_in_month = 3))))"

definition month_of :: "date \<Rightarrow> int" where
  "month_of d = (case civil_from_days d of (y, m, day_in_month) \<Rightarrow> m)"

fun on_offset :: "offset \<Rightarrow> date \<Rightarrow> bool" where
  "on_offset BMS d = first_business_day_of_month d"
| "on_offset BQS d = (first_business_day_of_month d \<and> month_of d \<in> {1, 4, 7, 10})"
| "on_offset BYS d = (first_business_day_of_month d \<and> month_of d = 1)"

definition date_range :: "date \<Rightarrow> date \<Rightarrow> offset \<Rightarrow> date list" where
  "date_range start_date end_date freq = filter (on_offset freq) [start_date..end_date]"

section \<open>Rebalance dates (lines 97-122)\<close>

datatype error = ValueError

definition get_rebalance_dates :: "date \<Rightarrow> date \<Rightarrow> string \<Rightarrow> error + date list" where
  "get_rebalance_dates start_date end_date frequency =
     (if frequency = ''monthly'' then
        Inr (filter (\<lambda>d. d \<le> end_date)
              (filter (\<lambda>d. d \<ge> start_date) (date_range start_date end_date BMS)))
      else if frequency = ''quarterly'' then
        Inr (filter (\<lambda>d. d \<le> end_date)
              (filter (\<lambda>d. d \<ge> start_date) (date_range start_date end_date BQS)))
      else if frequency = ''annually'' then
        Inr (filter (\<lambda>d. d \<le> end_date)
              (filter (\<lambda>d. d \<ge> start_date) (date_range start_date end_date BYS)))
      else Inl ValueError)"

section \<open>Daily simulation (lines 300-380)\<close>

text \<open>
  Lines 354-355: the price logged for the ticker in the last snapshot of the history,
  when that snapshot has a valued entry for it.
\<close>

definition last_known_price :: "snapshot list \<Rightarrow> ticker \<Rightarrow> real option" where
  "last_known_price history t =
     (if history \<noteq> [] then
        (case map_of (holdings (last history)) t of
           Some (Valued s p v) \<Rightarrow> Some p
         | _ \<Rightarrow> None)
      else None)"

text \<open>
  Lines 343-361: the loop over \<^verbatim>\<open>current_holdings.items()\<close>, with the running
  \<^verbatim>\<open>current_day_value\<close> and \<^verbatim>\<open>temp_holdings_details_for_log\<close>; the
  \<^verbatim>\<open>break\<close> ends it with \<^verbatim>\<open>valid_prices_for_day = False\<close>.
\<close>

fun value_holdings ::
  "price_table \<Rightarrow> date \<Rightarrow> snapshot list \<Rightarrow> holdings_dict \<Rightarrow> pyfloat \<Rightarrow> holdings_dict
     \<Rightarrow> pyfloat \<times> holdings_dict \<times> bool" where
  "value_holdings daily_prices_df sim_date history [] current_day_value temp =
     (current_day_value, temp, True)"
| "value_holdings daily_prices_df sim_date history ((t, data) # rest)
       current_day_value temp =
     (case df_loc daily_prices_df sim_date t of
        Some price_today \<Rightarrow>
          value_holdings daily_prices_df sim_date history rest
            (fadd current_day_value (fmul (shares data) (Some price_today)))
            (AList.update t
               (Valued (shares data) price_today (fmul (shares data) (Some price_today)))
               temp)
      | None \<Rightarrow>
          (case last_known_price history t of
             Some last_known \<Rightarrow>
               value_holdings daily_prices_df sim_date history rest
                 (fadd current_day_value (fmul (shares data) (Some last_known)))
                 (AList.update t
                    (Valued (shares data) last_known (fmul (shares data) (Some last_known)))
                    temp)
           | None \<Rightarrow> (current_day_value, temp, False)))"

text \<open>Lines 322-373: one business day of a period in which the portfolio holds assets.\<close>

definition sim_day :: "price_table \<Rightarrow> date \<Rightarrow> run_state \<Rightarrow> run_state" where
  "sim_day daily_prices_df sim_date st =
     (let history = portfolio_history st in
      if sim_date \<notin> set (df_index daily_prices_df) then
        (if history \<noteq> [] \<and> snap_date (last history) < sim_date then
           st\<lparr>portfolio_history := history @
                 [\<lparr>snap_date = sim_date, portfolio_value = portfolio_value (last history),
                   holdings = current_holdings st\<rparr>]\<rparr>
         else if history = [] then
           st\<lparr>portfolio_history := history @
                 [\<lparr>snap_date = sim_date, portfolio_value = current_portfolio_value st,
                   holdings = current_holdings st\<rparr>]\<rparr>
         else st)
      else
        (case value_holdings daily_prices_df sim_date history (current_holdings st) (Some 0) []
         of (current_day_value, temp_holdings_details_for_log, valid_prices_for_day) \<Rightarrow>
           (let new_value =
                  (if valid_prices_for_day then current_day_value
                   else if history \<noteq> [] then portfolio_value (last history)
                   else current_portfolio_value st)
            in st\<lparr>current_portfolio_value := new_value,
                  portfolio_history := history @
                    [\<lparr>snap_date = sim_date, portfolio_value = new_value,
                      holdings = (if valid_prices_for_day then temp_holdings_details_for_log
                                  else current_holdings st)\<rparr>]\<rparr>)))"

text \<open>Lines 375-380: one business day of a period in cash.\<close>

definition cash_day :: "date \<Rightarrow> run_state \<Rightarrow> run_state" where
  "cash_day sim_date st =
     st\<lparr>portfolio_history := portfolio_history st @
           [\<lparr>snap_date = sim_date, portfolio_value = current_portfolio_value st,
             holdings = []\<rparr>]\<rparr>"

text \<open>Lines 308-380: the period from \<open>start_sim_period\<close> to \<open>end_sim_period\<close>.\<close>

definition simulate_period :: "provider \<Rightarrow> date \<Rightarrow> date \<Rightarrow> run_state \<Rightarrow> run_state" where
  "simulate_period obter_dados_historicos_yf start_sim_period end_sim_period st =
     (if current_holdings st \<noteq> [] then
        (let tickers_in_portfolio = map fst (current_holdings st);
             daily_prices_df =
               df_ffill (obter_dados_historicos_yf tickers_in_portfolio start_sim_period
                           (end_sim_period + 3))
         in fold (sim_day daily_prices_df) (business_days start_sim_period end_sim_period) st)
      else fold cash_day (business_days start_sim_period end_sim_period) st)"

section \<open>The main loop (lines 125-398)\<close>

text \<open>
  \<open>fundamentals d\<close> is the scored table that the fundamentals provider and the two scoring
  functions give at the rebalance of date \<open>d\<close>; it is empty when the provider returns an
  empty table. The loop runs over the rebalance dates that are left; the end of a period is
  the day before the next date, or the end of the backtest (lines 301-304).
\<close>

fun rebalance_loop ::
  "(asset_row list \<Rightarrow> asset_row list) \<Rightarrow> args \<Rightarrow> provider \<Rightarrow> (date \<Rightarrow> asset_row list)
     \<Rightarrow> date list \<Rightarrow> run_state \<Rightarrow> run_state" where
  "rebalance_loop sort_values a prices fundamentals [] st = st"
| "rebalance_loop sort_values a prices fundamentals (current_rebalance_date # later) st =
     (let df_fundamental = fundamentals current_rebalance_date in
      if df_fundamental = [] then
        rebalance_loop sort_values a prices fundamentals later
          (if current_holdings st \<noteq> [] then
             st\<lparr>portfolio_history := portfolio_history st @
                   [\<lparr>snap_date = current_rebalance_date,
                     portfolio_value = current_portfolio_value st,
                     holdings = current_holdings st\<rparr>]\<rparr>
           else st)
      else
        (let selected_tickers = select_assets sort_values a df_fundamental;
             st = fst (rebalance a prices current_rebalance_date st selected_tickers);
             start_sim_period = current_rebalance_date;
             end_sim_period =
               (case later of [] \<Rightarrow> end_date_backtest a | next_date # _ \<Rightarrow> next_date - 1)
         in rebalance_loop sort_values a prices fundamentals later
              (simulate_period prices start_sim_period end_sim_period st)))"

text \<open>
  \<^verbatim>\<open>run_backtest\<close>: the history that is saved at the end. With no rebalance date the
  function returns before the loop and saves nothing.
\<close>

definition run_backtest ::
  "(asset_row list \<Rightarrow> asset_row list) \<Rightarrow> args \<Rightarrow> provider \<Rightarrow> (date \<Rightarrow> asset_row list)
     \<Rightarrow> error + snapshot list" where
  "run_backtest sort_values a prices fundamentals =
     (case get_rebalance_dates (start_date_backtest a) (end_date_backtest a)
             (rebalance_frequency a) of
        Inl e \<Rightarrow> Inl e
      | Inr rebalance_dates \<Rightarrow>
          (if rebalance_dates = [] then Inr []
           else Inr (portfolio_history
                  (rebalance_loop sort_values a prices fundamentals rebalance_dates
                     \<lparr>portfolio_history = [],
                      current_portfolio_value = Some (initial_portfolio_value a),
                      current_holdings = []\<rparr>))))"

section \<open>Example inputs\<close>

text \<open>
  The defaults of \<^verbatim>\<open>parse_arguments\<close> (monthly, no score filter, at most 10 assets,
  between 5% and 20% per asset, 100000 to start with) for the first quarter of 2020:
  day 18262 is Wednesday 2020-01-01, day 18352 is Tuesday 2020-03-31.
\<close>

definition default_args :: args where
  "default_args =
     \<lparr>start_date_backtest = 18262, end_date_backtest = 18352,
      initial_portfolio_value = 100000, rebalance_frequency = ''monthly'',
      universe_tickers = [''A'', ''B''], min_piotroski_score = 0,
      min_quant_value_score = 0, top_n_quant_value = 0, max_selected_assets = 10,
      min_alloc_asset = 5 / 100, max_alloc_asset = 20 / 100\<rparr>"

text \<open>Bounds of 30% and 70%, and bounds of 30% and 30%.\<close>

definition wide_args :: args where
  "wide_args = default_args\<lparr>min_alloc_asset := 3 / 10, max_alloc_asset := 7 / 10\<rparr>"

definition tight_args :: args where
  "tight_args = default_args\<lparr>min_alloc_asset := 3 / 10, max_alloc_asset := 3 / 10\<rparr>"

text \<open>
  A state with no history and no holdings, one that holds 100 shares of \<open>T\<close> bought at 10,
  and three price providers: one whose table is empty, one with prices for \<open>A\<close> and \<open>B\<close>
  (the first cell of \<open>B\<close> is null), and one where \<open>B\<close> has no price at all.
\<close>

definition start_state :: run_state where
  "start_state =
     \<lparr>portfolio_history = [], current_portfolio_value = Some 100000, current_holdings = []\<rparr>"

definition holding_state :: run_state where
  "holding_state =
     \<lparr>portfolio_history = [], current_portfolio_value = Some 1000,
      current_holdings = [(''T'', Bought (Some 100) 10 (Some 1))]\<rparr>"

definition no_prices :: provider where
  "no_prices tickers start_date end_date = \<lparr>df_index = [], df_columns = []\<rparr>"

definition both_priced :: provider where
  "both_priced tickers start_date end_date =
     \<lparr>df_index = [18262, 18263, 18264],
      df_columns = [(''A'', [Some 10, Some 11, Some 12]), (''B'', [None, Some 20, Some 21])]\<rparr>"

text \<open>A provider whose table has the price 0 for \<open>A\<close>, and a state worth 1000 in cash.\<close>

definition zero_priced :: provider where
  "zero_priced tickers start_date end_date =
     \<lparr>df_index = [18262], df_columns = [(''A'', [Some 0])]\<rparr>"

definition cash_state :: run_state where
  "cash_state =
     \<lparr>portfolio_history = [], current_portfolio_value = Some 1000, current_holdings = []\<rparr>"

definition b_unpriced :: provider where
  "b_unpriced tickers start_date end_date =
     \<lparr>df_index = [18262, 18263, 18264],
      df_columns = [(''A'', [Some 10, Some 11, Some 12]), (''B'', [None, None, None])]\<rparr>"

text \<open>
  Four business days, Monday 2020-01-06 (day 18267) to Thursday 2020-01-09, with the prices
  10, 11, missing, 12 for \<open>T\<close>: once with a null cell on the third day, once with no row
  for the third day.
\<close>

definition null_cell_prices :: provider where
  "null_cell_prices tickers start_date end_date =
     \<lparr>df_index = [18267, 18268, 18269, 18270],
      df_columns = [(''T'', [Some 10, Some 11, None, Some 12])]\<rparr>"

definition absent_row_prices :: provider where
  "absent_row_prices tickers start_date end_date =
     \<lparr>df_index = [18267, 18268, 18270],
      df_columns = [(''T'', [Some 10, Some 11, Some 12])]\<rparr>"

section \<open>Notions used to state the claims\<close>

text \<open>What a holding cost when it was bought: its share count times its entry price.\<close>

definition entry_cost :: "holding_entry \<Rightarrow> pyfloat" where
  "entry_cost h = fmul (shares h) (Some (price_at_buy h))"

text \<open>
  The position that a weight buys for a ticker at a total value: none when the ticker has no
  price.
\<close>

definition position_of ::
  "(ticker \<times> real option) list \<Rightarrow> pyfloat \<Rightarrow> ticker \<times> pyfloat \<Rightarrow> holdings_dict" where
  "position_of prices total_value tw =
     (case tw of (t, w) \<Rightarrow>
        (case series_price prices t of
           Some p \<Rightarrow> [(t, Bought (fdiv (fmul total_value w) (Some p)) p w)]
         | None \<Rightarrow> []))"

text \<open>
  The recomputation of weights in the words of the specification: the equal weight over the
  tickers is clamped into the bounds, and each ticker of the mapping gets the clamped weight
  divided by the sum of the clamped weights of the mapping.
\<close>

text \<open>A period start of a frequency: a date on the offset that the frequency stands for.\<close>

definition period_start :: "string \<Rightarrow> date \<Rightarrow> bool" where
  "period_start frequency d =
     (if frequency = ''monthly'' then on_offset BMS d
      else if frequency = ''quarterly'' then on_offset BQS d
      else on_offset BYS d)"

text \<open>
  What pandas promises of \<^verbatim>\<open>sort_values(by=..., ascending=False)\<close> with the default
  \<^verbatim>\<open>kind='quicksort'\<close>: the rows are rearranged so that the value score never
  increases. The order of rows with equal scores is left open (only \<^verbatim>\<open>mergesort\<close> and
  \<^verbatim>\<open>stable\<close> keep it).
\<close>

definition sorts_descending :: "(asset_row list \<Rightarrow> asset_row list) \<Rightarrow> bool" where
  "sorts_descending sort_values \<longleftrightarrow>
     (\<forall>rows. mset (sort_values rows) = mset rows \<and>
        sorted_wrt (\<lambda>r s. Quant_Value_Score r \<ge> Quant_Value_Score s) (sort_values rows))"

text \<open>
  The selection in the words of the specification: the two filters (skipped at the
  sentinel 0), a stable sort by value score descending, the top-N cut when N is positive,
  the cut to the maximum number of assets.
\<close>

definition surviving :: "args \<Rightarrow> asset_row list \<Rightarrow> asset_row list" where
  "surviving a rows =
     (let rows = (if min_piotroski_score a = 0 then rows
                  else filter (\<lambda>r. \<not> Piotroski_F_Score r < min_piotroski_score a) rows)
      in if min_quant_value_score a = 0 then rows
         else filter (\<lambda>r. \<not> Quant_Value_Score r < min_quant_value_score a) rows)"

definition stable_sort_descending :: "asset_row list \<Rightarrow> asset_row list" where
  "stable_sort_descending rows = sort_key (\<lambda>r. - Quant_Value_Score r) rows"

definition select_assets_spec :: "args \<Rightarrow> asset_row list \<Rightarrow> ticker list" where
  "select_assets_spec a rows =
     (let ranked = stable_sort_descending (surviving a rows);
          ranked = (if top_n_quant_value a > 0 then take (nat (top_n_quant_value a)) ranked
                    else ranked)
      in map row_ticker (take (nat (max_selected_assets a)) ranked))"

text \<open>Three rows with different value scores, the second below a quality score of 5.\<close>

definition ranked_rows :: "asset_row list" where
  "ranked_rows =
     [\<lparr>row_ticker = ''A'', Piotroski_F_Score = 7, Quant_Value_Score = 1 / 4\<rparr>,
      \<lparr>row_ticker = ''B'', Piotroski_F_Score = 3, Quant_Value_Score = 3 / 4\<rparr>,
      \<lparr>row_ticker = ''C'', Piotroski_F_Score = 8, Quant_Value_Score = 1 / 2\<rparr>]"

text \<open>The defaults with a minimum quality score of 5.\<close>

definition quality_args :: args where
  "quality_args = default_args\<lparr>min_piotroski_score := 5\<rparr>"

text \<open>
  The defaults from Sunday 2020-02-02 (day 18294) to Wednesday 2020-02-05 (day 18297), and
  a fundamentals provider that returns an empty table.
\<close>

definition short_args :: args where
  "short_args = default_args\<lparr>start_date_backtest := 18294, end_date_backtest := 18297\<rparr>"

definition no_fundamentals :: "date \<Rightarrow> asset_row list" where
  "no_fundamentals d = []"

text \<open>
  The business days of the periods of a list of rebalance dates: each period runs to the day
  before the next date, the last one to the end of the backtest.
\<close>

fun covered_days :: "date \<Rightarrow> date list \<Rightarrow> date list" where
  "covered_days e [] = []"
| "covered_days e [d] = business_days d e"
| "covered_days e (d # d' # ds) = business_days d (d' - 1) @ covered_days e (d' # ds)"

fun first_occurrences :: "'a list \<Rightarrow> 'a list" where
  "first_occurrences [] = []"
| "first_occurrences (x # xs) = x # filter (\<lambda>y. y \<noteq> x) (first_occurrences xs)"

definition reclamped_renormalized :: "args \<Rightarrow> ticker list \<Rightarrow> (ticker \<times> pyfloat) list" where
  "reclamped_renormalized a tickers =
     (let clamped = np_clip (1 / real (length tickers)) (min_alloc_asset a) (max_alloc_asset a);
          mapping = first_occurrences tickers;
          total = real (length mapping) * clamped
      in map (\<lambda>t. (t, fdiv (Some clamped) (Some total))) mapping)"

text \<open>The keys of a dict comprehension, as the insertions leave them.\<close>

definition keys_in_order :: "'k list \<Rightarrow> 'k list" where
  "keys_in_order ks = fold (\<lambda>k seen. if k \<in> set seen then seen else seen @ [k]) ks []"

section \<open>Facts about dicts and the allocation\<close>

lemma float_max_large: "10000000 \<le> float_max"
proof -
  have "(2::real) ^ 24 \<le> 2 ^ 1023"
    by (rule power_increasing) simp_all
  moreover have "(1::real) \<le> 2 - 1 / 2 ^ 52"
    by simp
  ultimately have "1 * (2::real) ^ 24 \<le> (2 - 1 / 2 ^ 52) * 2 ^ 1023"
    by (intro mult_mono) simp_all
  then show ?thesis
    by (simp add: float_max_def)
qed

lemma finite_float_small: "\<bar>x\<bar> \<le> 10000000 \<Longrightarrow> finite_float x = Some x"
  using float_max_large by (simp add: finite_float_def)

lemma finite_float_unit: "0 \<le> x \<Longrightarrow> x \<le> 1 \<Longrightarrow> finite_float x = Some x"
  by (rule finite_float_small) simp

lemma finite_float_Some: "finite_float x = Some y \<Longrightarrow> y = x \<and> \<bar>x\<bar> \<le> float_max"
  by (simp add: finite_float_def split: if_splits)

lemma update_graph:
  "AList.update k (f k) (map (\<lambda>x. (x, f x)) seen) =
   map (\<lambda>x. (x, f x)) (if k \<in> set seen then seen else seen @ [k])"
  by (induction seen) auto

lemma fold_update_graph:
  "fold (\<lambda>k d. AList.update k (f k) d) ks (map (\<lambda>x. (x, f x)) seen) =
   map (\<lambda>x. (x, f x)) (fold (\<lambda>k seen. if k \<in> set seen then seen else seen @ [k]) ks seen)"
proof (induction ks arbitrary: seen)
  case Nil
  show ?case by simp
next
  case (Cons k ks)
  show ?case
    using Cons.IH [of "if k \<in> set seen then seen else seen @ [k]"]
    by (simp only: fold_simps update_graph)
qed

lemma dict_comprehension_graph:
  "dict_comprehension f ks = map (\<lambda>x. (x, f x)) (keys_in_order ks)"
  using fold_update_graph [of f ks "[]"]
  by (simp add: dict_comprehension_def keys_in_order_def)

lemma fold_seen_props:
  "distinct seen \<Longrightarrow>
   distinct (fold (\<lambda>k seen. if k \<in> set seen then seen else seen @ [k]) ks seen) \<and>
   set (fold (\<lambda>k seen. if k \<in> set seen then seen else seen @ [k]) ks seen) = set seen \<union> set ks"
  by (induction ks arbitrary: seen) auto

lemma keys_in_order_distinct: "distinct (keys_in_order ks)"
  using fold_seen_props [of "[]" ks] by (simp add: keys_in_order_def)

lemma keys_in_order_set: "set (keys_in_order ks) = set ks"
  using fold_seen_props [of "[]" ks] by (simp add: keys_in_order_def)

lemma keys_in_order_length: "length (keys_in_order ks) = card (set ks)"
  using distinct_card [OF keys_in_order_distinct, of ks] by (simp add: keys_in_order_set)

lemma keys_in_order_of_distinct: "distinct ks \<Longrightarrow> keys_in_order ks = ks"
proof -
  have "distinct (seen @ ks) \<Longrightarrow>
        fold (\<lambda>k seen. if k \<in> set seen then seen else seen @ [k]) ks seen = seen @ ks"
    for seen :: "'a list"
    by (induction ks arbitrary: seen) auto
  from this [of "[]"] show "distinct ks \<Longrightarrow> keys_in_order ks = ks"
    by (simp add: keys_in_order_def)
qed


lemma sum_list_const_weights:
  "sum_list (map snd (map (\<lambda>x. (x, c)) ks)) = real (length ks) * (c::real)"
  by (induction ks) (simp_all add: algebra_simps)

lemma fsum_const:
  assumes "0 \<le> x" and "real (length ks) * x \<le> 1"
  shows "fsum (map (\<lambda>t. Some x) ks) = Some (real (length ks) * x)"
  using assms(2)
proof (induction ks)
  case Nil
  show ?case by simp
next
  case (Cons k ks)
  have "real (length ks) * x \<le> real (length (k # ks)) * x"
    using assms(1) by (simp add: algebra_simps)
  with Cons.prems have shorter: "real (length ks) * x \<le> 1"
    by simp
  have "0 \<le> x + real (length ks) * x"
    using assms(1) by simp
  moreover have "x + real (length ks) * x \<le> 1"
    using Cons.prems by (simp add: algebra_simps)
  ultimately have "finite_float (x + real (length ks) * x) = Some (x + real (length ks) * x)"
    by (rule finite_float_unit)
  then show ?case
    by (simp add: Cons.IH [OF shorter] algebra_simps)
qed

lemma final_weights_raw_graph:
  "final_weights_raw a sel =
   map (\<lambda>t. (t, np_clip (1 / real (length sel)) (min_alloc_asset a) (max_alloc_asset a)))
     (keys_in_order sel)"
  by (simp add: final_weights_raw_def dict_comprehension_graph)

text \<open>
  When the clipped weight is positive, the division by the sum undoes the clipping: every
  ticker gets one over the number of distinct tickers.
\<close>

lemma target_weights_of_equal:
  assumes "sel \<noteq> []"
    and "0 < np_clip (1 / real (length sel)) (min_alloc_asset a) (max_alloc_asset a)"
  shows "target_weights_of a sel =
         map (\<lambda>t. (t, Some (1 / real (card (set sel))))) (keys_in_order sel)"
proof -
  define c where "c = np_clip (1 / real (length sel)) (min_alloc_asset a) (max_alloc_asset a)"
  define d where "d = real (card (set sel))"
  have dpos: "0 < d"
    using assms(1) by (simp add: d_def card_gt_0_iff)
  have cpos: "0 < c"
    using assms(2) by (simp add: c_def)
  have raw: "final_weights_raw a sel = map (\<lambda>t. (t, c)) (keys_in_order sel)"
    by (simp add: final_weights_raw_graph c_def)
  have total: "sum_list (map snd (map (\<lambda>t. (t, c)) (keys_in_order sel))) = d * c"
    by (simp only: sum_list_const_weights keys_in_order_length d_def)
  have "d * c \<noteq> 0"
    using dpos cpos by simp
  moreover have "c / (d * c) = 1 / d"
    using cpos by simp
  moreover have "1 \<le> d"
    using assms(1) by (simp add: d_def card_gt_0_iff Suc_le_eq)
  then have "finite_float (1 / d) = Some (1 / d)"
    by (intro finite_float_unit) simp_all
  ultimately have quotient: "fdiv (Some c) (Some (d * c)) = Some (1 / d)"
    by simp
  have "target_weights_of a sel =
        map (\<lambda>(t, w). (t, fdiv (Some w) (Some (d * c)))) (map (\<lambda>t. (t, c)) (keys_in_order sel))"
    by (simp only: target_weights_of_def Let_def raw total)
  also have "\<dots> = map (\<lambda>t. (t, Some (1 / d))) (keys_in_order sel)"
    by (simp only: map_map comp_def split_conv quotient)
  finally show ?thesis
    by (simp only: d_def)
qed

lemma target_weights_of_sum:
  assumes "sel \<noteq> []"
    and "0 < np_clip (1 / real (length sel)) (min_alloc_asset a) (max_alloc_asset a)"
  shows "fsum (map snd (target_weights_of a sel)) = Some 1"
proof -
  let ?d = "real (card (set sel))"
  have "0 < card (set sel)"
    using assms(1) by (simp add: card_gt_0_iff)
  then have one: "?d * (1 / ?d) = 1"
    by (simp add: card_gt_0_iff)
  have weights: "map snd (target_weights_of a sel) =
      map (\<lambda>t. Some (1 / ?d)) (keys_in_order sel)"
    by (simp add: target_weights_of_equal [OF assms] comp_def)
  have "fsum (map (\<lambda>t. Some (1 / ?d)) (keys_in_order sel)) =
      Some (real (length (keys_in_order sel)) * (1 / ?d))"
    by (rule fsum_const) (simp_all only: keys_in_order_length one, simp_all)
  then show ?thesis
    by (simp only: weights keys_in_order_length one)
qed

lemma target_weights_of_member:
  assumes "sel \<noteq> []"
    and "0 < np_clip (1 / real (length sel)) (min_alloc_asset a) (max_alloc_asset a)"
    and "(t, w) \<in> set (target_weights_of a sel)"
  shows "w = Some (1 / real (card (set sel)))"
  using assms(3) by (auto simp add: target_weights_of_equal [OF assms(1,2)])

lemma card_set_le_length: "real (card (set xs)) \<le> real (length xs)"
  by (simp add: card_length)



section \<open>Allocation: the claims\<close>

lemma np_clip_feasible:
  assumes "0 < hi" and "lo \<le> x" and "0 < x"
  shows "0 < np_clip x lo hi"
  using assms by (simp add: np_clip_def)

text \<open>
  C1, as the code has it. For a non-empty list of \<open>N\<close> selected tickers and bounds with
  \<open>0 \<le> min \<le> max \<le> 1\<close> and \<open>min * N \<le> 1\<close>: when \<open>max\<close> is positive the target
  weights sum to 1, every weight is one over the number of distinct tickers (\<open>1 / N\<close> for a
  list without repetition) and at least \<open>min\<close>, and it is at most \<open>max\<close> exactly when
  \<open>max\<close> times that number is at least 1; when \<open>max\<close> is zero no weight is a finite
  number.
\<close>

theorem allocation_weights_within_bounds:
  assumes "selected \<noteq> []"
    and "0 \<le> min_alloc_asset a"
    and "min_alloc_asset a \<le> max_alloc_asset a"
    and "max_alloc_asset a \<le> 1"
    and "min_alloc_asset a * real (length selected) \<le> 1"
  shows "(0 < max_alloc_asset a \<longrightarrow>
            fsum (map snd (target_weights_of a selected)) = Some 1 \<and>
            (\<forall>(t, w) \<in> set (target_weights_of a selected).
               w = Some (1 / real (card (set selected))) \<and>
               min_alloc_asset a \<le> 1 / real (card (set selected)) \<and>
               (1 / real (card (set selected)) \<le> max_alloc_asset a \<longleftrightarrow>
                1 \<le> max_alloc_asset a * real (card (set selected))))) \<and>
         (max_alloc_asset a = 0 \<longrightarrow>
            (\<forall>(t, w) \<in> set (target_weights_of a selected). w = None))"
proof -
  let ?n = "real (length selected)" and ?d = "real (card (set selected))"
  have npos: "0 < ?n"
    using assms(1) by simp
  have dpos: "0 < ?d"
    using assms(1) by (simp add: card_gt_0_iff)
  have lower_n: "min_alloc_asset a \<le> 1 / ?n"
    using assms(5) npos by (simp add: pos_le_divide_eq)
  have "1 / ?n \<le> 1 / ?d"
    using card_set_le_length [of selected] dpos by (simp add: frac_le)
  with lower_n have lower: "min_alloc_asset a \<le> 1 / ?d"
    by simp
  have upper: "1 / ?d \<le> max_alloc_asset a \<longleftrightarrow> 1 \<le> max_alloc_asset a * ?d"
    using dpos by (simp add: pos_divide_le_eq)
  have positive: "fsum (map snd (target_weights_of a selected)) = Some 1 \<and>
      (\<forall>(t, w) \<in> set (target_weights_of a selected). w = Some (1 / ?d))"
    if maxpos: "0 < max_alloc_asset a"
  proof -
    have clip: "0 < np_clip (1 / ?n) (min_alloc_asset a) (max_alloc_asset a)"
      using maxpos lower_n npos by (intro np_clip_feasible) simp_all
    have total: "fsum (map snd (target_weights_of a selected)) = Some 1"
      using assms(1) clip by (rule target_weights_of_sum)
    have each: "w = Some (1 / ?d)" if "(t, w) \<in> set (target_weights_of a selected)" for t w
      using assms(1) clip that by (rule target_weights_of_member)
    show ?thesis
      using total each by auto
  qed
  have zero: "\<forall>(t, w) \<in> set (target_weights_of a selected). w = None"
    if max0: "max_alloc_asset a = 0"
  proof -
    have "np_clip (1 / ?n) (min_alloc_asset a) (max_alloc_asset a) = 0"
      using max0 npos assms(2) by (simp add: np_clip_def)
    then have raw: "final_weights_raw a selected = map (\<lambda>t. (t, 0)) (keys_in_order selected)"
      by (simp add: final_weights_raw_graph)
    have "sum_list (map snd (map (\<lambda>t. (t, 0::real)) (keys_in_order selected))) = 0"
      using sum_list_const_weights [of "0::real" "keys_in_order selected"] by simp
    then have "target_weights_of a selected =
        map (\<lambda>(t, w). (t, fdiv (Some w) (Some 0))) (map (\<lambda>t. (t, 0)) (keys_in_order selected))"
      by (simp only: target_weights_of_def Let_def raw)
    then show ?thesis
      by auto
  qed
  show ?thesis
    using positive zero lower upper by auto
qed

theorem allocation_weights_within_bounds_witness:
  "fsum (map snd (target_weights_of default_args [''A'', ''B'', ''C'', ''D'', ''E''])) = Some 1 \<and>
   map snd (target_weights_of default_args [''A'', ''B'', ''C'', ''D'', ''E'']) =
     [Some (1 / 5), Some (1 / 5), Some (1 / 5), Some (1 / 5), Some (1 / 5)] \<and>
   min_alloc_asset default_args \<le> 1 / 5 \<and> 1 / 5 \<le> max_alloc_asset default_args"
  using allocation_weights_within_bounds [of "[''A'', ''B'', ''C'', ''D'', ''E'']" default_args]
  by (simp add: default_args_def target_weights_of_def final_weights_raw_def
      dict_comprehension_def np_clip_def Let_def finite_float_small)

text \<open>
  C1 as stated fails: with the default bounds of 5% and 20% and two selected tickers, the
  hypotheses of the claim hold, and both weights are one half, above the maximum.
\<close>

theorem allocation_weights_exceed_max:
  "0 \<le> min_alloc_asset default_args \<and>
   min_alloc_asset default_args \<le> max_alloc_asset default_args \<and>
   max_alloc_asset default_args \<le> 1 \<and>
   min_alloc_asset default_args * real (length [''A'', ''B'']) \<le> 1 \<and>
   target_weights_of default_args [''A'', ''B''] = [(''A'', Some (1 / 2)), (''B'', Some (1 / 2))] \<and>
   \<not> 1 / 2 \<le> max_alloc_asset default_args"
  by (simp add: default_args_def target_weights_of_def final_weights_raw_def
      dict_comprehension_def np_clip_def Let_def finite_float_small)



text \<open>The cut of lines 229-233, when it is taken under accepted bounds.\<close>

lemma shrink_count:
  assumes "m \<le> 1" and "m * real n > 1"
  shows "0 < m" and "1 \<le> \<lfloor>1 / m\<rfloor>" and "py_int (1 / m) = \<lfloor>1 / m\<rfloor>"
    and "nat \<lfloor>1 / m\<rfloor> < n" and "m \<le> 1 / real (nat \<lfloor>1 / m\<rfloor>)"
proof -
  define k where "k = \<lfloor>1 / m\<rfloor>"
  show mpos: "0 < m"
  proof (rule ccontr)
    assume "\<not> 0 < m"
    then have "m * real n \<le> 0"
      by (simp add: mult_le_0_iff)
    with assms(2) show False by simp
  qed
  have inv_ge: "1 \<le> 1 / m"
    using mpos assms(1) by simp
  then have k1: "1 \<le> k"
    by (simp add: k_def le_floor_iff)
  then show "1 \<le> \<lfloor>1 / m\<rfloor>"
    by (simp only: k_def)
  show "py_int (1 / m) = \<lfloor>1 / m\<rfloor>"
    using mpos by (simp add: py_int_def)
  have below: "real_of_int k \<le> 1 / m"
    unfolding k_def by (rule of_int_floor_le)
  have "1 / m < real n"
    using mpos assms(2) by (simp add: pos_divide_less_eq mult.commute)
  with below have "real_of_int k < real n"
    by (rule le_less_trans)
  then have "k < int n"
    by linarith
  then have "nat k < n"
    using k1 by linarith
  then show "nat \<lfloor>1 / m\<rfloor> < n"
    by (simp only: k_def)
  have kreal: "real (nat k) = real_of_int k" and kpos: "0 < real_of_int k"
    using k1 by simp_all
  have "m * real_of_int k \<le> 1"
    using below mpos by (simp add: pos_le_divide_eq mult.commute)
  then have "m \<le> 1 / real_of_int k"
    using kpos by (simp add: pos_le_divide_eq)
  then have "m \<le> 1 / real (nat k)"
    by (simp only: kreal)
  then show "m \<le> 1 / real (nat \<lfloor>1 / m\<rfloor>)"
    by (simp only: k_def)
qed

lemma adjust_num_selected_cut:
  assumes "min_alloc_asset a \<le> 1"
    and "min_alloc_asset a * real (length selected) > 1"
  shows "adjust_num_selected a selected = take (nat \<lfloor>1 / min_alloc_asset a\<rfloor>) selected"
    and "length (adjust_num_selected a selected) = nat \<lfloor>1 / min_alloc_asset a\<rfloor>"
    and "adjust_num_selected a selected \<noteq> []"
proof -
  note facts = shrink_count [OF assms]
  have "0 \<le> py_int (1 / min_alloc_asset a)"
    using facts(2) by (simp only: facts(3))
  then have "py_slice_to selected (py_int (1 / min_alloc_asset a)) =
             take (nat \<lfloor>1 / min_alloc_asset a\<rfloor>) selected"
    by (simp only: py_slice_to_def if_True facts(3))
  then show cut: "adjust_num_selected a selected = take (nat \<lfloor>1 / min_alloc_asset a\<rfloor>) selected"
    using assms(2) by (simp add: adjust_num_selected_def)
  show len: "length (adjust_num_selected a selected) = nat \<lfloor>1 / min_alloc_asset a\<rfloor>"
    using facts(4) by (simp add: cut)
  show "adjust_num_selected a selected \<noteq> []"
    using len facts(2) by auto
qed

text \<open>
  C4, as the code has it. When \<open>min * N > 1\<close> under bounds \<open>min \<le> max \<le> 1\<close>, the
  selection is cut to its first \<open>floor (1 / min)\<close> tickers, exactly that many; the weights
  over the cut list sum to 1, every weight is at least \<open>min\<close>, and it is at most \<open>max\<close>
  when \<open>max\<close> times the number of distinct tickers of the cut list is at least 1.
\<close>

theorem shrink_to_floor_and_weights:
  assumes "min_alloc_asset a \<le> max_alloc_asset a"
    and "max_alloc_asset a \<le> 1"
    and "min_alloc_asset a * real (length selected) > 1"
  shows "adjust_num_selected a selected = take (nat \<lfloor>1 / min_alloc_asset a\<rfloor>) selected \<and>
         length (adjust_num_selected a selected) = nat \<lfloor>1 / min_alloc_asset a\<rfloor> \<and>
         fsum (map snd (target_weights_of a (adjust_num_selected a selected))) = Some 1 \<and>
         (\<forall>(t, w) \<in> set (target_weights_of a (adjust_num_selected a selected)).
            \<exists>x. w = Some x \<and> min_alloc_asset a \<le> x \<and>
              (1 \<le> max_alloc_asset a * real (card (set (adjust_num_selected a selected)))
                 \<longrightarrow> x \<le> max_alloc_asset a))"
proof -
  let ?cut = "adjust_num_selected a selected"
  let ?d = "real (card (set ?cut))"
  have m1: "min_alloc_asset a \<le> 1"
    using assms(1,2) by simp
  note count = shrink_count [OF m1 assms(3)]
  note cut = adjust_num_selected_cut [OF m1 assms(3)]
  have len: "real (length ?cut) = real (nat \<lfloor>1 / min_alloc_asset a\<rfloor>)"
    by (simp only: cut(2))
  have lower_n: "min_alloc_asset a \<le> 1 / real (length ?cut)"
    using count(5) by (simp only: len)
  have npos: "0 < real (length ?cut)"
    using cut(3) by simp
  have dpos: "0 < ?d"
    using cut(3) by (simp add: card_gt_0_iff)
  have maxpos: "0 < max_alloc_asset a"
    using count(1) assms(1) by simp
  have clip: "0 < np_clip (1 / real (length ?cut)) (min_alloc_asset a) (max_alloc_asset a)"
    using maxpos lower_n npos by (intro np_clip_feasible) simp_all
  have "1 / real (length ?cut) \<le> 1 / ?d"
    using card_set_le_length [of ?cut] dpos by (simp add: frac_le)
  with lower_n have lower: "min_alloc_asset a \<le> 1 / ?d"
    by simp
  have upper: "1 / ?d \<le> max_alloc_asset a" if "1 \<le> max_alloc_asset a * ?d"
    using that dpos by (simp add: pos_divide_le_eq)
  have total: "fsum (map snd (target_weights_of a ?cut)) = Some 1"
    using cut(3) clip by (rule target_weights_of_sum)
  have each: "w = Some (1 / ?d)" if "(t, w) \<in> set (target_weights_of a ?cut)" for t w
    using cut(3) clip that by (rule target_weights_of_member)
  show ?thesis
    using cut(1,2) total each lower upper by auto
qed



theorem shrink_to_floor_and_weights_witness:
  "adjust_num_selected wide_args [''A'', ''B'', ''C'', ''D''] = [''A'', ''B'', ''C''] \<and>
   fsum (map snd (target_weights_of wide_args [''A'', ''B'', ''C''])) = Some 1 \<and>
   map snd (target_weights_of wide_args [''A'', ''B'', ''C'']) =
     [Some (1 / 3), Some (1 / 3), Some (1 / 3)] \<and>
   min_alloc_asset wide_args \<le> 1 / 3 \<and> 1 / 3 \<le> max_alloc_asset wide_args"
proof -
  have cut: "adjust_num_selected wide_args [''A'', ''B'', ''C'', ''D''] = [''A'', ''B'', ''C'']"
    by (simp add: wide_args_def default_args_def adjust_num_selected_def py_int_def
        py_slice_to_def)
  show ?thesis
    using shrink_to_floor_and_weights [of wide_args "[''A'', ''B'', ''C'', ''D'']"]
    unfolding cut
    by (simp add: wide_args_def default_args_def target_weights_of_def final_weights_raw_def
        dict_comprehension_def np_clip_def Let_def finite_float_small)
qed

text \<open>
  C4 as stated fails: with both bounds at 30% and four selected tickers the hypotheses
  hold, three tickers are kept, and each weight is one third, above the maximum.
\<close>

theorem shrunken_weights_exceed_max:
  "min_alloc_asset tight_args \<le> max_alloc_asset tight_args \<and>
   max_alloc_asset tight_args \<le> 1 \<and>
   min_alloc_asset tight_args * real (length [''A'', ''B'', ''C'', ''D'']) > 1 \<and>
   adjust_num_selected tight_args [''A'', ''B'', ''C'', ''D''] = [''A'', ''B'', ''C''] \<and>
   target_weights_of tight_args [''A'', ''B'', ''C''] =
     [(''A'', Some (1 / 3)), (''B'', Some (1 / 3)), (''C'', Some (1 / 3))] \<and>
   \<not> 1 / 3 \<le> max_alloc_asset tight_args"
  by (simp add: tight_args_def default_args_def adjust_num_selected_def py_int_def
      py_slice_to_def target_weights_of_def final_weights_raw_def dict_comprehension_def
      np_clip_def Let_def finite_float_small)

text \<open>
  C10. Under the bounds that \<^verbatim>\<open>parse_arguments\<close> accepts, whenever the cut of lines
  229-233 is taken the new count \<^verbatim>\<open>int(1.0 / min_alloc_asset)\<close> is at least 1 and the
  cut list is not empty; and no rebalance, with or without the cut, takes the branch of
  lines 235-237 that empties the holdings because no asset is left.
\<close>

theorem no_empty_selection_after_adjust:
  assumes "alloc_bounds_accepted a"
  shows "(min_alloc_asset a * real (length selected) > 1 \<longrightarrow>
            1 \<le> py_int (1 / min_alloc_asset a) \<and>
            length (adjust_num_selected a selected) = nat (py_int (1 / min_alloc_asset a)) \<and>
            adjust_num_selected a selected \<noteq> []) \<and>
         snd (rebalance a prices d st selected) \<noteq> NoAssetsAfterAdjust"
proof -
  have m1: "min_alloc_asset a \<le> 1"
    using assms by (simp add: alloc_bounds_accepted_def)
  have taken: "1 \<le> py_int (1 / min_alloc_asset a) \<and>
      length (adjust_num_selected a selected) = nat (py_int (1 / min_alloc_asset a)) \<and>
      adjust_num_selected a selected \<noteq> []"
    if big: "min_alloc_asset a * real (length selected) > 1"
    using shrink_count(2,3) [OF m1 big] adjust_num_selected_cut(2,3) [OF m1 big]
    by simp
  have kept: "adjust_num_selected a selected \<noteq> []" if "selected \<noteq> []"
  proof (cases "min_alloc_asset a * real (length selected) > 1")
    case True
    then show ?thesis using taken by simp
  next
    case False
    then show ?thesis using that by (simp add: adjust_num_selected_def)
  qed
  have "snd (rebalance a prices d st selected) \<noteq> NoAssetsAfterAdjust"
  proof (cases "selected = []")
    case True
    then show ?thesis by (simp add: rebalance_def)
  next
    case False
    then have "rebalance a prices d st selected =
        trade_executor a prices d st (adjust_num_selected a selected)
          (target_weights_of a (adjust_num_selected a selected))"
      using kept by (simp add: rebalance_def Let_def)
    then show ?thesis
      by (simp add: trade_executor_def Let_def)
  qed
  with taken show ?thesis
    by blast
qed



theorem no_empty_selection_after_adjust_witness:
  "alloc_bounds_accepted tight_args \<and>
   min_alloc_asset tight_args * real (length [''A'', ''B'', ''C'', ''D'']) > 1 \<and>
   py_int (1 / min_alloc_asset tight_args) = 3 \<and>
   adjust_num_selected tight_args [''A'', ''B'', ''C'', ''D''] = [''A'', ''B'', ''C''] \<and>
   snd (rebalance tight_args no_prices 18262 start_state [''A'', ''B'', ''C'', ''D''])
     \<noteq> NoAssetsAfterAdjust"
proof -
  have accepted: "alloc_bounds_accepted tight_args"
    by (simp add: alloc_bounds_accepted_def tight_args_def default_args_def)
  show ?thesis
    using accepted
      no_empty_selection_after_adjust [OF accepted, of "[''A'', ''B'', ''C'', ''D'']"
        no_prices 18262 start_state]
    by (simp add: tight_args_def default_args_def adjust_num_selected_def py_int_def
        py_slice_to_def)
qed

section \<open>Trade execution: the claims\<close>

lemma target_weights_of_nonempty: "sel \<noteq> [] \<Longrightarrow> target_weights_of a sel \<noteq> []"
proof -
  assume "sel \<noteq> []"
  then have "keys_in_order sel \<noteq> []"
    using keys_in_order_set [of sel] by (metis set_empty)
  then show ?thesis
    by (simp add: target_weights_of_def Let_def final_weights_raw_graph)
qed

lemma trade_executor_unusable:
  assumes "target_weights \<noteq> []"
    and "df_empty (prices selected d (d + 3)) \<or> df_all_null (prices selected d (d + 3))"
  shows "trade_executor a prices d st selected target_weights = (st, PricesUnavailable)"
  using assms by (simp add: trade_executor_def Let_def)

text \<open>
  C7. A rebalance that reaches the price lookup (some ticker is left after the adjustment of
  lines 229-233) and gets an empty or all-null table leaves the whole state as it was: the
  holdings, the portfolio value and the history are those of the prior state.
\<close>

theorem unusable_prices_keep_state:
  assumes "adjust_num_selected a selected \<noteq> []"
    and "df_empty (prices (adjust_num_selected a selected) d (d + 3)) \<or>
         df_all_null (prices (adjust_num_selected a selected) d (d + 3))"
  shows "rebalance a prices d st selected = (st, PricesUnavailable) \<and>
         current_holdings (fst (rebalance a prices d st selected)) = current_holdings st \<and>
         current_portfolio_value (fst (rebalance a prices d st selected)) =
           current_portfolio_value st"
proof -
  have "selected \<noteq> []"
    using assms(1) by (auto simp add: adjust_num_selected_def py_slice_to_def)
  then have "rebalance a prices d st selected =
      trade_executor a prices d st (adjust_num_selected a selected)
        (target_weights_of a (adjust_num_selected a selected))"
    using assms(1) by (simp add: rebalance_def Let_def)
  also have "\<dots> = (st, PricesUnavailable)"
    using target_weights_of_nonempty [OF assms(1)] assms(2) by (rule trade_executor_unusable)
  finally show ?thesis
    by simp
qed

theorem unusable_prices_keep_state_witness:
  "adjust_num_selected default_args [''A'', ''B''] = [''A'', ''B''] \<and>
   df_empty (no_prices [''A'', ''B''] 18262 (18262 + 3)) \<and>
   rebalance default_args no_prices 18262 holding_state [''A'', ''B''] =
     (holding_state, PricesUnavailable) \<and>
   current_holdings (fst (rebalance default_args no_prices 18262 holding_state [''A'', ''B''])) =
     [(''T'', Bought (Some 100) 10 (Some 1))] \<and>
   current_portfolio_value
     (fst (rebalance default_args no_prices 18262 holding_state [''A'', ''B''])) = Some 1000"
proof -
  have same: "adjust_num_selected default_args [''A'', ''B''] = [''A'', ''B'']"
    by (simp add: adjust_num_selected_def default_args_def)
  have empty: "df_empty (no_prices [''A'', ''B''] 18262 (18262 + 3))"
    by (simp add: df_empty_def no_prices_def)
  show ?thesis
    using unusable_prices_keep_state [of default_args "[''A'', ''B'']" no_prices 18262
        holding_state] same empty
    by (simp add: holding_state_def)
qed



section \<open>Trade execution: buying\<close>

lemma update_fresh: "k \<notin> fst ` set al \<Longrightarrow> AList.update k v al = al @ [(k, v)]"
  by (induction al) auto

lemma buy_position:
  assumes "t \<notin> fst ` set acc"
  shows "buy prices total_value (t, w) acc = acc @ position_of prices total_value (t, w)"
  using assms by (simp add: buy_def position_of_def update_fresh split: option.split)

lemma position_of_keys: "fst ` set (position_of prices total_value (t, w)) \<subseteq> {t}"
  by (cases "series_price prices t") (simp_all add: position_of_def)

lemma fold_buy_positions:
  assumes "distinct (map fst tw)" and "fst ` set acc \<inter> fst ` set tw = {}"
  shows "fold (buy prices total_value) tw acc =
         acc @ concat (map (position_of prices total_value) tw)"
  using assms
proof (induction tw arbitrary: acc)
  case Nil
  show ?case by simp
next
  case (Cons x tw)
  obtain t w where x: "x = (t, w)"
    by (cases x)
  have fresh: "t \<notin> fst ` set acc"
    using Cons.prems(2) by (auto simp add: x)
  have step: "buy prices total_value x acc = acc @ position_of prices total_value x"
    unfolding x using fresh by (rule buy_position)
  have "fst ` set (acc @ position_of prices total_value x) \<inter> fst ` set tw = {}"
    using Cons.prems position_of_keys [of prices total_value t w]
    by (auto simp add: x)
  moreover have "distinct (map fst tw)"
    using Cons.prems(1) by simp
  ultimately have "fold (buy prices total_value) tw (acc @ position_of prices total_value x) =
      (acc @ position_of prices total_value x) @
        concat (map (position_of prices total_value) tw)"
    by (rule Cons.IH [rotated])
  then show ?case
    by (simp add: step)
qed

lemma execute_trades_positions:
  "distinct (map fst tw) \<Longrightarrow>
   execute_trades prices total_value tw = concat (map (position_of prices total_value) tw)"
  using fold_buy_positions [of tw "[]" prices total_value]
  by (simp add: execute_trades_def)

lemma fsum_Some: "fsum xs = Some s \<Longrightarrow> \<exists>ws. xs = map Some ws \<and> sum_list ws = s"
proof (induction xs arbitrary: s)
  case Nil
  then show ?case by simp
next
  case (Cons x xs)
  from Cons.prems obtain y r where x: "x = Some y" and rest: "fsum xs = Some r"
    and total: "finite_float (y + r) = Some s"
    by (cases x; cases "fsum xs") simp_all
  from Cons.IH [OF rest] obtain ws where ws: "xs = map Some ws" "sum_list ws = r"
    by blast
  have "s = y + r"
    using finite_float_Some [OF total] by simp
  then have "x # xs = map Some (y # ws) \<and> sum_list (y # ws) = s"
    by (simp add: x ws)
  then show ?case
    by (rule exI [where x = "y # ws"])
qed

lemma positions_cost:
  assumes "\<forall>(t, w) \<in> set tw. \<exists>p. series_price prices t = Some p \<and>
             fdiv (fmul (Some v) w) (Some p) \<noteq> None"
    and "map snd tw = map Some ws"
  shows "map (\<lambda>(t, h). entry_cost h) (concat (map (position_of prices (Some v)) tw)) =
         map (\<lambda>x. Some (v * x)) ws"
  using assms
proof (induction tw arbitrary: ws)
  case Nil
  then show ?case by simp
next
  case (Cons x tw)
  obtain t w where x: "x = (t, w)"
    by (cases x)
  from Cons.prems(2) obtain y ys where ws: "ws = y # ys" and w: "w = Some y"
    and rest: "map snd tw = map Some ys"
    by (cases ws) (auto simp add: x)
  from Cons.prems(1) obtain p where p: "series_price prices t = Some p"
    and shares: "fdiv (fmul (Some v) (Some y)) (Some p) \<noteq> None"
    by (auto simp add: x w)
  have amount: "finite_float (v * y) = Some (v * y)"
    using shares by (cases "finite_float (v * y)") (auto dest: finite_float_Some)
  have nonzero: "p \<noteq> 0"
    using shares by (auto simp add: amount)
  have count: "finite_float (v * y / p) = Some (v * y / p)"
    using shares nonzero
    by (cases "finite_float (v * y / p)") (auto simp add: amount dest: finite_float_Some)
  have "v * y / p * p = v * y"
    using nonzero by simp
  then have head: "map (\<lambda>(t, h). entry_cost h) (position_of prices (Some v) x) = [Some (v * y)]"
    by (simp add: x w p position_of_def entry_cost_def amount nonzero count)
  have "\<forall>(t, w) \<in> set tw. \<exists>p. series_price prices t = Some p \<and>
      fdiv (fmul (Some v) w) (Some p) \<noteq> None"
    using Cons.prems(1) by simp
  then have "map (\<lambda>(t, h). entry_cost h) (concat (map (position_of prices (Some v)) tw)) =
      map (\<lambda>x. Some (v * x)) ys"
    using rest by (rule Cons.IH)
  then show ?case
    by (simp add: head ws)
qed

lemma trade_executor_all_priced:
  fixes a :: args and prices :: provider and d :: date and st :: run_state
    and selected :: "ticker list" and tw :: "(ticker \<times> pyfloat) list"
  defines "df \<equiv> prices selected d (d + 3)"
  defines "on_date \<equiv> df_first_row (df_bfill (df_ffill df))"
  assumes "tw \<noteq> []" and "\<not> df_empty df" and "\<not> df_all_null df"
    and "\<forall>t \<in> set selected. series_price on_date t \<noteq> None"
  shows "trade_executor a prices d st selected tw =
         (st\<lparr>current_holdings := execute_trades on_date (current_portfolio_value st) tw\<rparr>,
          Rebalanced)"
proof -
  define missing where "missing = filter (\<lambda>t. series_price on_date t = None) selected"
  have none_missing: "missing = []"
    unfolding missing_def using assms(6) by (simp add: filter_empty_conv)
  show ?thesis
    unfolding trade_executor_def Let_def
    unfolding df_def [symmetric]
    unfolding on_date_def [symmetric]
    unfolding missing_def [symmetric]
    using assms(3,4,5) none_missing by simp
qed

lemma trade_executor_value:
  "current_portfolio_value (fst (trade_executor a prices d st selected tw)) =
   current_portfolio_value st"
  by (simp add: trade_executor_def Let_def)

text \<open>
  C5, as the code has it. The state is worth \<open>v\<close>; the weight mapping (a dict, so its keys
  differ) has weights that sum to 1; the price lookup succeeds and has a price for every
  selected ticker and every ticker of the mapping; and every share count
  \<open>v * weight / price\<close> is a finite number, which says that no price is zero and that
  nothing overflows. Then in the state that the trade executor returns every holding has
  a finite cost, shares times entry price, the costs add up to \<open>v\<close>, and the total
  portfolio value is \<open>v\<close> as before.
\<close>

theorem round_trip_value:
  fixes a :: args and prices :: provider and d :: date and st :: run_state
    and selected :: "ticker list" and tw :: "(ticker \<times> pyfloat) list" and v :: real
  defines "df \<equiv> prices selected d (d + 3)"
  defines "on_date \<equiv> df_first_row (df_bfill (df_ffill df))"
  defines "after \<equiv> fst (trade_executor a prices d st selected tw)"
  assumes "current_portfolio_value st = Some v"
    and "distinct (map fst tw)"
    and "fsum (map snd tw) = Some 1"
    and "\<not> df_empty df" and "\<not> df_all_null df"
    and "\<forall>t \<in> set selected. series_price on_date t \<noteq> None"
    and "\<forall>(t, w) \<in> set tw. \<exists>p. series_price on_date t = Some p \<and>
           fdiv (fmul (Some v) w) (Some p) \<noteq> None"
  shows "(\<exists>costs. map (\<lambda>(t, h). entry_cost h) (current_holdings after) = map Some costs \<and>
            sum_list costs = v) \<and>
         current_portfolio_value after = Some v"
proof -
  from fsum_Some [OF assms(6)] obtain ws where ws: "map snd tw = map Some ws"
    and one: "sum_list ws = 1"
    by blast
  have nonempty: "tw \<noteq> []"
    using ws one by auto
  have run: "trade_executor a prices d st selected tw =
      (st\<lparr>current_holdings := execute_trades on_date (Some v) tw\<rparr>, Rebalanced)"
    using trade_executor_all_priced [where a = a and prices = prices and d = d and st = st
        and selected = selected and tw = tw, OF nonempty]
      assms(7,8,9)
    by (simp add: on_date_def df_def assms(4))
  have bought: "current_holdings after = concat (map (position_of on_date (Some v)) tw)"
    by (simp add: after_def run execute_trades_positions [OF assms(5)])
  have costs: "map (\<lambda>(t, h). entry_cost h) (current_holdings after) =
      map Some (map (\<lambda>x. v * x) ws)"
    unfolding bought using positions_cost [OF assms(10) ws] by (simp add: comp_def)
  have "sum_list (map (\<lambda>x. v * x) ws) = v"
    using one by (simp add: sum_list_const_mult)
  with costs have "\<exists>costs. map (\<lambda>(t, h). entry_cost h) (current_holdings after) = map Some costs \<and>
      sum_list costs = v"
    by blast
  moreover have "current_portfolio_value after = Some v"
    by (simp add: after_def trade_executor_value assms(4))
  ultimately show ?thesis
    by blast
qed

theorem round_trip_value_witness:
  "current_holdings
     (fst (trade_executor wide_args both_priced 18262 start_state [''A'', ''B'']
        [(''A'', Some (1 / 2)), (''B'', Some (1 / 2))])) =
     [(''A'', Bought (Some 5000) 10 (Some (1 / 2))), (''B'', Bought (Some 2500) 20 (Some (1 / 2)))] \<and>
   map (\<lambda>(t, h). entry_cost h)
     (current_holdings
        (fst (trade_executor wide_args both_priced 18262 start_state [''A'', ''B'']
           [(''A'', Some (1 / 2)), (''B'', Some (1 / 2))]))) =
     [Some 50000, Some 50000] \<and>
   current_portfolio_value
     (fst (trade_executor wide_args both_priced 18262 start_state [''A'', ''B'']
        [(''A'', Some (1 / 2)), (''B'', Some (1 / 2))])) = Some 100000"
proof -
  have table: "df_first_row (df_bfill (df_ffill (both_priced [''A'', ''B''] 18262 e))) =
      [(''A'', Some 10), (''B'', Some 20)]" for e
    by (simp add: both_priced_def df_ffill_def df_bfill_def df_first_row_def ffill_column_def
        bfill_column_def)
  have usable: "\<not> df_empty (both_priced [''A'', ''B''] 18262 e)"
    "\<not> df_all_null (both_priced [''A'', ''B''] 18262 e)" for e
    by (simp_all add: both_priced_def df_empty_def df_all_null_def)
  have run: "trade_executor wide_args both_priced 18262 start_state [''A'', ''B'']
      [(''A'', Some (1 / 2)), (''B'', Some (1 / 2))] =
      (start_state\<lparr>current_holdings :=
         [(''A'', Bought (Some 5000) 10 (Some (1 / 2))),
          (''B'', Bought (Some 2500) 20 (Some (1 / 2)))]\<rparr>, Rebalanced)"
    by (simp add: trade_executor_def table usable series_price_def execute_trades_def buy_def
        start_state_def finite_float_small)
  have costs: "map (\<lambda>(t, h). entry_cost h)
      [(''A'', Bought (Some 5000) 10 (Some (1 / 2))),
       (''B'', Bought (Some 2500) 20 (Some (1 / 2)))] = [Some 50000, Some 50000]"
    by (simp add: entry_cost_def finite_float_small)
  have worth: "current_portfolio_value start_state = Some 100000"
    by (simp add: start_state_def)
  have weights: "fsum (map snd [(''A'', Some (1 / 2)), (''B'', Some (1 / 2 :: real))]) = Some 1"
    by (simp add: finite_float_small)
  have priced: "\<forall>t \<in> set [''A'', ''B''].
      series_price (df_first_row (df_bfill (df_ffill (both_priced [''A'', ''B''] 18262
        (18262 + 3))))) t \<noteq> None"
    by (simp add: table series_price_def)
  have representable: "\<forall>(t, w) \<in> set [(''A'', Some (1 / 2)), (''B'', Some (1 / 2))].
      \<exists>p. series_price (df_first_row (df_bfill (df_ffill (both_priced [''A'', ''B''] 18262
        (18262 + 3))))) t = Some p \<and> fdiv (fmul (Some 100000) w) (Some p) \<noteq> None"
    by (simp add: table series_price_def finite_float_small)
  show ?thesis
    using round_trip_value [where a = wide_args and prices = both_priced and d = 18262
        and st = start_state and selected = "[''A'', ''B'']"
        and tw = "[(''A'', Some (1 / 2)), (''B'', Some (1 / 2))]" and v = 100000,
        OF worth _ weights usable priced representable]
    by (simp only: run fst_conv) (simp add: entry_cost_def finite_float_small start_state_def)
qed

text \<open>
  C5 as stated fails at a price of zero, which is a price that is present and not null: the
  share count is not finite, and neither is what the holding cost.
\<close>

theorem round_trip_fails_at_zero_price:
  "fsum (map snd [(''A'', Some 1)]) = Some 1 \<and>
   series_price [(''A'', Some 0)] ''A'' = Some 0 \<and>
   execute_trades [(''A'', Some 0)] (Some 1000) [(''A'', Some 1)] =
     [(''A'', Bought None 0 (Some 1))] \<and>
   current_holdings
     (fst (trade_executor default_args zero_priced 18262 cash_state [''A''] [(''A'', Some 1)])) =
     [(''A'', Bought None 0 (Some 1))] \<and>
   entry_cost (Bought None 0 (Some 1)) = None \<and>
   fsum (map (\<lambda>(t, h). entry_cost h)
     (execute_trades [(''A'', Some 0)] (Some 1000) [(''A'', Some 1)])) \<noteq> Some 1000"
  by (simp add: series_price_def execute_trades_def buy_def entry_cost_def finite_float_small
      trade_executor_def zero_priced_def cash_state_def df_empty_def df_all_null_def
      df_ffill_def df_bfill_def df_first_row_def ffill_column_def bfill_column_def)

text \<open>
  An overflow has the same effect as a zero price: with a value of \<open>10 ^ 308\<close>, a weight
  of 1 and a price of one sixteenth the share count is not a finite number.
\<close>

lemma float_max_below: "float_max < 16 * 10 ^ 308"
proof -
  have "(2::real) ^ 1020 \<le> 10 ^ 308"
    by simp
  then have "(2::real) ^ 4 * 2 ^ 1020 \<le> 16 * 10 ^ 308"
    by simp
  then have "(2::real) ^ 1024 \<le> 16 * 10 ^ 308"
    by (simp only: power_add [symmetric]) simp
  moreover have "float_max < 2 ^ 1024"
    by (simp add: float_max_def)
  ultimately show ?thesis
    by simp
qed

lemma share_count_overflows:
  "fdiv (fmul (Some (10 ^ 308)) (Some 1)) (Some (1 / 16)) = None"
  using float_max_below float_max_large by (simp add: finite_float_def)

section \<open>Trade execution: tickers without a price\<close>

lemma fold_seen_first_occurrences:
  "fold (\<lambda>k seen. if k \<in> set seen then seen else seen @ [k]) ks seen =
   seen @ filter (\<lambda>k. k \<notin> set seen) (first_occurrences ks)"
proof (induction ks arbitrary: seen)
  case Nil
  show ?case by simp
next
  case (Cons k ks)
  show ?case
  proof (cases "k \<in> set seen")
    case True
    then have "filter (\<lambda>x. x \<notin> set seen) (filter (\<lambda>y. y \<noteq> k) (first_occurrences ks)) =
               filter (\<lambda>x. x \<notin> set seen) (first_occurrences ks)"
      by (auto simp add: filter_filter intro: filter_cong)
    with True Cons.IH [of seen] show ?thesis
      by simp
  next
    case False
    have "filter (\<lambda>x. x \<notin> set (seen @ [k])) (first_occurrences ks) =
          filter (\<lambda>x. x \<notin> set seen) (filter (\<lambda>y. y \<noteq> k) (first_occurrences ks))"
      by (auto simp add: filter_filter intro: filter_cong)
    with False Cons.IH [of "seen @ [k]"] show ?thesis
      by simp
  qed
qed

lemma keys_in_order_first_occurrences: "keys_in_order ks = first_occurrences ks"
  using fold_seen_first_occurrences [of ks "[]"] by (simp add: keys_in_order_def)

text \<open>The weights of lines 239-245 and 275-278 are those of the specification's steps.\<close>

lemma target_weights_of_spec: "target_weights_of a tickers = reclamped_renormalized a tickers"
proof -
  define c where
    "c = np_clip (1 / real (length tickers)) (min_alloc_asset a) (max_alloc_asset a)"
  have raw: "final_weights_raw a tickers = map (\<lambda>t. (t, c)) (first_occurrences tickers)"
    by (simp add: final_weights_raw_graph c_def keys_in_order_first_occurrences)
  have total: "sum_list (map snd (map (\<lambda>t. (t, c)) (first_occurrences tickers))) =
               real (length (first_occurrences tickers)) * c"
    by (rule sum_list_const_weights)
  have "target_weights_of a tickers =
        map (\<lambda>(t, w). (t, fdiv (Some w) (Some (real (length (first_occurrences tickers)) * c))))
          (map (\<lambda>t. (t, c)) (first_occurrences tickers))"
    by (simp only: target_weights_of_def Let_def raw total)
  also have "\<dots> = reclamped_renormalized a tickers"
    by (simp only: reclamped_renormalized_def Let_def c_def map_map comp_def split_conv)
  finally show ?thesis .
qed

lemma reclamped_renormalized_keys:
  "map fst (reclamped_renormalized a tickers) = first_occurrences tickers"
  by (simp add: reclamped_renormalized_def Let_def comp_def)

lemma first_occurrences_distinct: "distinct (first_occurrences ks)"
  using keys_in_order_distinct [of ks] by (simp only: keys_in_order_first_occurrences)

lemma first_occurrences_set: "set (first_occurrences ks) = set ks"
  using keys_in_order_set [of ks] by (simp only: keys_in_order_first_occurrences)

lemma not_in_missing:
  "filter (\<lambda>t. t \<notin> set (filter (\<lambda>t. q t = None) selected)) selected =
   filter (\<lambda>t. q t \<noteq> None) selected"
  by (rule filter_cong) auto



lemma positions_keys:
  assumes "\<forall>t \<in> set (map fst tw). series_price prices t \<noteq> None"
  shows "map fst (concat (map (position_of prices total_value) tw)) = map fst tw"
  using assms
proof (induction tw)
  case Nil
  show ?case by simp
next
  case (Cons x tw)
  obtain t w where x: "x = (t, w)"
    by (cases x)
  from Cons.prems obtain p where "series_price prices t = Some p"
    by (auto simp add: x)
  then have "map fst (position_of prices total_value x) = [t]"
    by (simp add: x position_of_def)
  with Cons show ?case
    by (simp add: x)
qed

text \<open>
  C6. The price lookup succeeds (the table is neither empty nor all null) and some selected
  ticker has no price. Then the tickers without a price are dropped; the weights of the
  remaining tickers are the clamped equal weight divided by the sum of the clamped weights;
  the new holdings are the positions these weights buy, one for each remaining ticker and
  none for a dropped one; when no ticker remains the holdings are empty; and the total
  portfolio value is the one before.
\<close>

theorem unpriced_tickers_dropped_and_reweighted:
  fixes a :: args and prices :: provider and d :: date and st :: run_state
    and selected :: "ticker list" and tw :: "(ticker \<times> pyfloat) list"
  defines "df \<equiv> prices selected d (d + 3)"
  defines "on_date \<equiv> df_first_row (df_bfill (df_ffill df))"
  defines "remaining \<equiv> filter (\<lambda>t. series_price on_date t \<noteq> None) selected"
  defines "after \<equiv> fst (trade_executor a prices d st selected tw)"
  assumes "tw \<noteq> []" and "\<not> df_empty df" and "\<not> df_all_null df"
    and "\<exists>t \<in> set selected. series_price on_date t = None"
  shows "current_holdings after =
           concat (map (position_of on_date (current_portfolio_value st))
             (reclamped_renormalized a remaining)) \<and>
         map fst (current_holdings after) = first_occurrences remaining \<and>
         (remaining = [] \<longrightarrow> current_holdings after = []) \<and>
         current_portfolio_value after = current_portfolio_value st \<and>
         snd (trade_executor a prices d st selected tw) =
           (if remaining = [] then NoAssetsAfterPriceDrop else Rebalanced)"
proof -
  let ?v = "current_portfolio_value st"
  have missing: "filter (\<lambda>t. series_price on_date t = None) selected \<noteq> []"
    using assms(8) by (simp add: filter_empty_conv)
  have priced: "\<forall>t \<in> set (map fst (reclamped_renormalized a remaining)).
      series_price on_date t \<noteq> None"
    by (simp add: reclamped_renormalized_keys first_occurrences_set remaining_def)
  have keys: "map fst (concat (map (position_of on_date ?v) (reclamped_renormalized a remaining))) =
      first_occurrences remaining"
    using positions_keys [OF priced] by (simp only: reclamped_renormalized_keys)
  define missing where "missing = filter (\<lambda>t. series_price on_date t = None) selected"
  have missing_nonempty: "missing \<noteq> []"
    unfolding missing_def by (rule missing)
  have rest: "filter (\<lambda>t. t \<notin> set missing) selected = remaining"
    unfolding missing_def remaining_def by (rule not_in_missing)
  have unfolded: "trade_executor a prices d st selected tw =
      (if (if remaining \<noteq> [] then target_weights_of a remaining else []) \<noteq> [] then
         (st\<lparr>current_holdings := execute_trades on_date ?v
               (if remaining \<noteq> [] then target_weights_of a remaining else [])\<rparr>, Rebalanced)
       else (st\<lparr>current_holdings := []\<rparr>, NoAssetsAfterPriceDrop))"
    unfolding trade_executor_def Let_def
    unfolding df_def [symmetric]
    unfolding on_date_def [symmetric]
    unfolding missing_def [symmetric]
    unfolding rest
    using assms(5,6,7) missing_nonempty by simp
  have run: "trade_executor a prices d st selected tw =
      (st\<lparr>current_holdings :=
            concat (map (position_of on_date ?v) (reclamped_renormalized a remaining))\<rparr>,
       if remaining = [] then NoAssetsAfterPriceDrop else Rebalanced)"
  proof (cases "remaining = []")
    case True
    then show ?thesis
      by (simp add: unfolded reclamped_renormalized_def)
  next
    case False
    have nonempty: "target_weights_of a remaining \<noteq> []"
      using False by (rule target_weights_of_nonempty)
    have "distinct (map fst (target_weights_of a remaining))"
      by (simp only: target_weights_of_spec reclamped_renormalized_keys
          first_occurrences_distinct)
    then have bought: "execute_trades on_date ?v (target_weights_of a remaining) =
        concat (map (position_of on_date ?v) (reclamped_renormalized a remaining))"
      by (simp only: execute_trades_positions target_weights_of_spec)
    show ?thesis
      using False nonempty by (simp add: unfolded bought)
  qed
  have empty: "current_holdings after = []" if "remaining = []"
    using that by (simp add: after_def run reclamped_renormalized_def)
  show ?thesis
    using keys empty by (simp add: after_def run)
qed



theorem unpriced_tickers_dropped_and_reweighted_witness:
  "\<not> df_empty (b_unpriced [''A'', ''B''] 18262 (18262 + 3)) \<and>
   \<not> df_all_null (b_unpriced [''A'', ''B''] 18262 (18262 + 3)) \<and>
   series_price
     (df_first_row (df_bfill (df_ffill (b_unpriced [''A'', ''B''] 18262 (18262 + 3))))) ''B'' =
     None \<and>
   reclamped_renormalized wide_args [''A''] = [(''A'', Some 1)] \<and>
   current_holdings
     (fst (trade_executor wide_args b_unpriced 18262 start_state [''A'', ''B'']
        (target_weights_of wide_args [''A'', ''B'']))) =
     [(''A'', Bought (Some 10000) 10 (Some 1))] \<and>
   current_portfolio_value
     (fst (trade_executor wide_args b_unpriced 18262 start_state [''A'', ''B'']
        (target_weights_of wide_args [''A'', ''B'']))) = Some 100000"
proof -
  have table: "df_first_row (df_bfill (df_ffill (b_unpriced [''A'', ''B''] 18262 e))) =
      [(''A'', Some 10), (''B'', None)]" for e
    by (simp add: b_unpriced_def df_ffill_def df_bfill_def df_first_row_def ffill_column_def
        bfill_column_def)
  have usable: "\<not> df_empty (b_unpriced [''A'', ''B''] 18262 e)"
    "\<not> df_all_null (b_unpriced [''A'', ''B''] 18262 e)" for e
    by (simp_all add: b_unpriced_def df_empty_def df_all_null_def)
  have weights: "target_weights_of wide_args [''A'', ''B''] \<noteq> []"
    by (rule target_weights_of_nonempty) simp
  have spec: "reclamped_renormalized wide_args [''A''] = [(''A'', Some 1)]"
    by (simp add: reclamped_renormalized_def wide_args_def default_args_def np_clip_def
        finite_float_small)
  have missing: "\<exists>t \<in> set [''A'', ''B''].
      series_price
        (df_first_row (df_bfill (df_ffill (b_unpriced [''A'', ''B''] 18262 (18262 + 3))))) t =
      None"
    by (simp add: table series_price_def)
  show ?thesis
    using unpriced_tickers_dropped_and_reweighted [where a = wide_args and st = start_state
        and prices = b_unpriced and d = 18262 and selected = "[''A'', ''B'']"
        and tw = "target_weights_of wide_args [''A'', ''B'']", OF weights usable missing]
    by (simp add: table usable spec series_price_def position_of_def start_state_def
        finite_float_small)
qed



section \<open>Daily simulation: the claims\<close>

lemma business_days_example: "business_days 18267 18270 = [18267, 18268, 18269, 18270]"
  by (simp add: business_days_def weekday_def)

lemma null_cell_history:
  "portfolio_history (simulate_period null_cell_prices 18267 18270 holding_state) =
     [\<lparr>snap_date = 18267, portfolio_value = Some 1000,
        holdings = [(''T'', Valued (Some 100) 10 (Some 1000))]\<rparr>,
      \<lparr>snap_date = 18268, portfolio_value = Some 1100,
        holdings = [(''T'', Valued (Some 100) 11 (Some 1100))]\<rparr>,
      \<lparr>snap_date = 18269, portfolio_value = Some 1100,
        holdings = [(''T'', Valued (Some 100) 11 (Some 1100))]\<rparr>,
      \<lparr>snap_date = 18270, portfolio_value = Some 1200,
        holdings = [(''T'', Valued (Some 100) 12 (Some 1200))]\<rparr>]"
proof -
  define tbl where "tbl = df_ffill (null_cell_prices [''T''] 18267 (18270 + 3))"
  have tbl: "tbl = \<lparr>df_index = [18267, 18268, 18269, 18270],
      df_columns = [(''T'', [Some 10, Some 11, Some 11, Some 12])]\<rparr>"
    by (simp add: tbl_def null_cell_prices_def df_ffill_def ffill_column_def)
  define s1 where "s1 = sim_day tbl 18267 holding_state"
  define s2 where "s2 = sim_day tbl 18268 s1"
  define s3 where "s3 = sim_day tbl 18269 s2"
  define s4 where "s4 = sim_day tbl 18270 s3"
  have s1: "s1 = holding_state\<lparr>current_portfolio_value := Some 1000, portfolio_history :=
      [\<lparr>snap_date = 18267, portfolio_value = Some 1000,
         holdings = [(''T'', Valued (Some 100) 10 (Some 1000))]\<rparr>]\<rparr>"
    by (simp add: s1_def tbl sim_day_def df_loc_def holding_state_def Let_def last_known_price_def
        finite_float_small)
  have s2: "s2 = holding_state\<lparr>current_portfolio_value := Some 1100, portfolio_history :=
      [\<lparr>snap_date = 18267, portfolio_value = Some 1000,
         holdings = [(''T'', Valued (Some 100) 10 (Some 1000))]\<rparr>,
       \<lparr>snap_date = 18268, portfolio_value = Some 1100,
         holdings = [(''T'', Valued (Some 100) 11 (Some 1100))]\<rparr>]\<rparr>"
    by (simp add: s2_def s1 tbl sim_day_def df_loc_def holding_state_def Let_def last_known_price_def
        finite_float_small)
  have s3: "s3 = holding_state\<lparr>current_portfolio_value := Some 1100, portfolio_history :=
      [\<lparr>snap_date = 18267, portfolio_value = Some 1000,
         holdings = [(''T'', Valued (Some 100) 10 (Some 1000))]\<rparr>,
       \<lparr>snap_date = 18268, portfolio_value = Some 1100,
         holdings = [(''T'', Valued (Some 100) 11 (Some 1100))]\<rparr>,
       \<lparr>snap_date = 18269, portfolio_value = Some 1100,
         holdings = [(''T'', Valued (Some 100) 11 (Some 1100))]\<rparr>]\<rparr>"
    by (simp add: s3_def s2 tbl sim_day_def df_loc_def holding_state_def Let_def last_known_price_def
        finite_float_small)
  have s4: "s4 = holding_state\<lparr>current_portfolio_value := Some 1200, portfolio_history :=
      [\<lparr>snap_date = 18267, portfolio_value = Some 1000,
         holdings = [(''T'', Valued (Some 100) 10 (Some 1000))]\<rparr>,
       \<lparr>snap_date = 18268, portfolio_value = Some 1100,
         holdings = [(''T'', Valued (Some 100) 11 (Some 1100))]\<rparr>,
       \<lparr>snap_date = 18269, portfolio_value = Some 1100,
         holdings = [(''T'', Valued (Some 100) 11 (Some 1100))]\<rparr>,
       \<lparr>snap_date = 18270, portfolio_value = Some 1200,
         holdings = [(''T'', Valued (Some 100) 12 (Some 1200))]\<rparr>]\<rparr>"
    by (simp add: s4_def s3 tbl sim_day_def df_loc_def holding_state_def Let_def last_known_price_def
        finite_float_small)
  have "simulate_period null_cell_prices 18267 18270 holding_state = s4"
    by (simp add: simulate_period_def business_days_example holding_state_def
        s4_def s3_def s2_def s1_def tbl_def Let_def)
  then show ?thesis
    by (simp add: s4 holding_state_def)
qed

lemma absent_row_history:
  "portfolio_history (simulate_period absent_row_prices 18267 18270 holding_state) =
     [\<lparr>snap_date = 18267, portfolio_value = Some 1000,
        holdings = [(''T'', Valued (Some 100) 10 (Some 1000))]\<rparr>,
      \<lparr>snap_date = 18268, portfolio_value = Some 1100,
        holdings = [(''T'', Valued (Some 100) 11 (Some 1100))]\<rparr>,
      \<lparr>snap_date = 18269, portfolio_value = Some 1100,
        holdings = [(''T'', Bought (Some 100) 10 (Some 1))]\<rparr>,
      \<lparr>snap_date = 18270, portfolio_value = Some 1200,
        holdings = [(''T'', Valued (Some 100) 12 (Some 1200))]\<rparr>]"
proof -
  define tbl where "tbl = df_ffill (absent_row_prices [''T''] 18267 (18270 + 3))"
  have tbl: "tbl = \<lparr>df_index = [18267, 18268, 18270],
      df_columns = [(''T'', [Some 10, Some 11, Some 12])]\<rparr>"
    by (simp add: tbl_def absent_row_prices_def df_ffill_def ffill_column_def)
  define s1 where "s1 = sim_day tbl 18267 holding_state"
  define s2 where "s2 = sim_day tbl 18268 s1"
  define s3 where "s3 = sim_day tbl 18269 s2"
  define s4 where "s4 = sim_day tbl 18270 s3"
  have s1: "s1 = holding_state\<lparr>current_portfolio_value := Some 1000, portfolio_history :=
      [\<lparr>snap_date = 18267, portfolio_value = Some 1000,
         holdings = [(''T'', Valued (Some 100) 10 (Some 1000))]\<rparr>]\<rparr>"
    by (simp add: s1_def tbl sim_day_def df_loc_def holding_state_def Let_def last_known_price_def
        finite_float_small)
  have s2: "s2 = holding_state\<lparr>current_portfolio_value := Some 1100, portfolio_history :=
      [\<lparr>snap_date = 18267, portfolio_value = Some 1000,
         holdings = [(''T'', Valued (Some 100) 10 (Some 1000))]\<rparr>,
       \<lparr>snap_date = 18268, portfolio_value = Some 1100,
         holdings = [(''T'', Valued (Some 100) 11 (Some 1100))]\<rparr>]\<rparr>"
    by (simp add: s2_def s1 tbl sim_day_def df_loc_def holding_state_def Let_def last_known_price_def
        finite_float_small)
  have s3: "s3 = holding_state\<lparr>current_portfolio_value := Some 1100, portfolio_history :=
      [\<lparr>snap_date = 18267, portfolio_value = Some 1000,
         holdings = [(''T'', Valued (Some 100) 10 (Some 1000))]\<rparr>,
       \<lparr>snap_date = 18268, portfolio_value = Some 1100,
         holdings = [(''T'', Valued (Some 100) 11 (Some 1100))]\<rparr>,
       \<lparr>snap_date = 18269, portfolio_value = Some 1100,
         holdings = [(''T'', Bought (Some 100) 10 (Some 1))]\<rparr>]\<rparr>"
    by (simp add: s3_def s2 tbl sim_day_def df_loc_def holding_state_def Let_def last_known_price_def
        finite_float_small)
  have s4: "s4 = holding_state\<lparr>current_portfolio_value := Some 1200, portfolio_history :=
      [\<lparr>snap_date = 18267, portfolio_value = Some 1000,
         holdings = [(''T'', Valued (Some 100) 10 (Some 1000))]\<rparr>,
       \<lparr>snap_date = 18268, portfolio_value = Some 1100,
         holdings = [(''T'', Valued (Some 100) 11 (Some 1100))]\<rparr>,
       \<lparr>snap_date = 18269, portfolio_value = Some 1100,
         holdings = [(''T'', Bought (Some 100) 10 (Some 1))]\<rparr>,
       \<lparr>snap_date = 18270, portfolio_value = Some 1200,
         holdings = [(''T'', Valued (Some 100) 12 (Some 1200))]\<rparr>]\<rparr>"
    by (simp add: s4_def s3 tbl sim_day_def df_loc_def holding_state_def Let_def last_known_price_def
        finite_float_small)
  have "simulate_period absent_row_prices 18267 18270 holding_state = s4"
    by (simp add: simulate_period_def business_days_example holding_state_def
        s4_def s3_def s2_def s1_def tbl_def Let_def)
  then show ?thesis
    by (simp add: s4 holding_state_def)
qed

text \<open>
  C9. A portfolio of 100 shares of one ticker bought at 10, simulated over four business
  days with the prices 10, 11, missing, 12, is valued 1000, 1100, 1100, 1200, one snapshot
  a day; so it is when the third price is a null cell, and when the third day has no row in
  the price table.
\<close>

theorem simulator_values_with_missing_price:
  "map portfolio_value
     (portfolio_history (simulate_period null_cell_prices 18267 18270 holding_state)) =
     [Some 1000, Some 1100, Some 1100, Some 1200] \<and>
   map snap_date
     (portfolio_history (simulate_period null_cell_prices 18267 18270 holding_state)) =
     [18267, 18268, 18269, 18270] \<and>
   map portfolio_value
     (portfolio_history (simulate_period absent_row_prices 18267 18270 holding_state)) =
     [Some 1000, Some 1100, Some 1100, Some 1200] \<and>
   map snap_date
     (portfolio_history (simulate_period absent_row_prices 18267 18270 holding_state)) =
     [18267, 18268, 18269, 18270]"
  by (simp add: null_cell_history absent_row_history)



section \<open>Rebalance dates: the claims\<close>

lemma strictly_increasing_upto: "sorted_wrt (<) [i..j]"
  by (simp add: strict_sorted_iff)

lemma filtered_range:
  "filter (\<lambda>d. d \<le> e) (filter (\<lambda>d. d \<ge> s) (date_range s e freq)) = date_range s e freq"
  by (auto simp add: date_range_def filter_filter intro!: filter_cong)

lemma filtered_range_merged:
  "filter (\<lambda>d. s \<le> d \<and> d \<le> e) (date_range s e freq) = date_range s e freq"
  by (auto simp add: date_range_def filter_filter intro!: filter_cong)

lemma date_range_props:
  "(\<forall>d \<in> set (date_range s e freq). s \<le> d \<and> d \<le> e) \<and>
   sorted_wrt (<) (date_range s e freq) \<and>
   (date_range s e freq = [] \<longleftrightarrow> \<not> (\<exists>d. s \<le> d \<and> d \<le> e \<and> on_offset freq d))"
proof -
  have "sorted_wrt (<) (date_range s e freq)"
    unfolding date_range_def using strictly_increasing_upto by (rule sorted_wrt_filter)
  then show ?thesis
    by (auto simp add: date_range_def filter_empty_conv)
qed

text \<open>
  C8. For the three frequencies the scheduler returns dates that all lie between start and
  end, in strictly increasing order, and the sequence is empty exactly when no period start
  of the frequency lies between start and end.
\<close>

theorem rebalance_dates_in_range_and_increasing:
  assumes "frequency \<in> {''monthly'', ''quarterly'', ''annually''}"
  shows "\<exists>ds. get_rebalance_dates s e frequency = Inr ds \<and>
           (\<forall>d \<in> set ds. s \<le> d \<and> d \<le> e) \<and>
           sorted_wrt (<) ds \<and>
           (ds = [] \<longleftrightarrow> \<not> (\<exists>d. s \<le> d \<and> d \<le> e \<and> period_start frequency d))"
proof -
  consider "frequency = ''monthly''" | "frequency = ''quarterly''" | "frequency = ''annually''"
    using assms by auto
  then show ?thesis
  proof cases
    case 1
    then have "get_rebalance_dates s e frequency = Inr (date_range s e BMS)"
      by (simp add: get_rebalance_dates_def filtered_range_merged)
    moreover have "period_start frequency = on_offset BMS"
      using 1 by (simp add: period_start_def fun_eq_iff)
    ultimately show ?thesis
      using date_range_props [of s e BMS] by simp
  next
    case 2
    then have "get_rebalance_dates s e frequency = Inr (date_range s e BQS)"
      by (simp add: get_rebalance_dates_def filtered_range_merged)
    moreover have "period_start frequency = on_offset BQS"
      using 2 by (simp add: period_start_def fun_eq_iff)
    ultimately show ?thesis
      using date_range_props [of s e BQS] by simp
  next
    case 3
    then have "get_rebalance_dates s e frequency = Inr (date_range s e BYS)"
      by (simp add: get_rebalance_dates_def filtered_range_merged)
    moreover have "period_start frequency = on_offset BYS"
      using 3 by (simp add: period_start_def fun_eq_iff)
    ultimately show ?thesis
      using date_range_props [of s e BYS] by simp
  qed
qed


lemma civil_early_2020:
  "civil_from_days 18262 = (2020, 1, 1)" "civil_from_days 18263 = (2020, 1, 2)"
  "civil_from_days 18294 = (2020, 2, 2)" "civil_from_days 18295 = (2020, 2, 3)"
  "civil_from_days 18296 = (2020, 2, 4)" "civil_from_days 18297 = (2020, 2, 5)"
  by code_simp+

lemma first_business_days_early_2020:
  "first_business_day_of_month 18262" "first_business_day_of_month 18295"
  "\<not> first_business_day_of_month 18263" "\<not> first_business_day_of_month 18294"
  "\<not> first_business_day_of_month 18296" "\<not> first_business_day_of_month 18297"
  by (simp_all add: first_business_day_of_month_def civil_early_2020 weekday_def)

lemma monthly_dates_early_2020:
  "get_rebalance_dates 18294 18297 ''monthly'' = Inr [18295]"
  "get_rebalance_dates 18263 18263 ''monthly'' = Inr []"
  "get_rebalance_dates 18262 18262 ''monthly'' = Inr [18262]"
proof -
  have days: "[18294..18297] = [18294, 18295, 18296, 18297 :: int]"
    "[18263..18263] = [18263 :: int]" "[18262..18262] = [18262 :: int]"
    by simp_all
  have ranges: "date_range 18294 18297 BMS = [18295]" "date_range 18263 18263 BMS = []"
    "date_range 18262 18262 BMS = [18262]"
    by (simp_all add: date_range_def days first_business_days_early_2020 del: upto.simps)
  show "get_rebalance_dates 18294 18297 ''monthly'' = Inr [18295]"
    "get_rebalance_dates 18263 18263 ''monthly'' = Inr []"
    "get_rebalance_dates 18262 18262 ''monthly'' = Inr [18262]"
    by (simp_all add: get_rebalance_dates_def filtered_range_merged ranges)
qed

text \<open>
  Monday 2020-02-03 (day 18295) is the one monthly date between Sunday 2020-02-02 and
  Wednesday 2020-02-05. A range of one day is empty when the day is no period start
  (Thursday 2020-01-02) and is the day itself when it is one (Wednesday 2020-01-01).
\<close>

theorem rebalance_dates_in_range_and_increasing_witness:
  "get_rebalance_dates 18294 18297 ''monthly'' = Inr [18295] \<and>
   get_rebalance_dates 18263 18263 ''monthly'' = Inr [] \<and>
   get_rebalance_dates 18262 18262 ''monthly'' = Inr [18262] \<and>
   period_start ''monthly'' 18295"
proof -
  have start: "period_start ''monthly'' 18295"
    by (simp add: period_start_def first_business_days_early_2020)
  show ?thesis
    using rebalance_dates_in_range_and_increasing [of "''monthly''" 18294 18297]
      monthly_dates_early_2020 start
    by simp
qed



section \<open>Asset selection: the claims\<close>

lemma filter_same_key:
  assumes "distinct (map g zs)" and "k \<in> set zs"
  shows "filter (\<lambda>x. g k = g x) zs = [k]"
  using assms
proof (induction zs)
  case Nil
  then show ?case by simp
next
  case (Cons z zs)
  show ?case
  proof (cases "k = z")
    case True
    have "filter (\<lambda>x. g z = g x) zs = []"
      using Cons.prems(1) by (auto simp add: filter_empty_conv)
    then show ?thesis
      using True by simp
  next
    case False
    then have "k \<in> set zs"
      using Cons.prems(2) by simp
    moreover from this have "g k \<noteq> g z"
      using Cons.prems(1) by (metis distinct.simps(2) image_eqI list.simps(9) set_map)
    ultimately show ?thesis
      using Cons by simp
  qed
qed

text \<open>Without ties every sort within pandas' promise is the stable one.\<close>

lemma descending_sort_unique:
  assumes "sorts_descending sort_values" and "distinct (map Quant_Value_Score rows)"
  shows "sort_values rows = stable_sort_descending rows"
proof -
  let ?ys = "sort_values rows" and ?f = "\<lambda>r. - Quant_Value_Score r"
  have perm: "mset ?ys = mset rows"
    and down: "sorted_wrt (\<lambda>r s. Quant_Value_Score r \<ge> Quant_Value_Score s) ?ys"
    using assms(1) by (simp_all add: sorts_descending_def)
  have "mset (map Quant_Value_Score ?ys) = mset (map Quant_Value_Score rows)"
    using perm by simp
  then have dist: "distinct (map Quant_Value_Score ?ys)"
    using assms(2) by (rule mset_eq_imp_distinct_iff [THEN iffD2])
  have dist_neg: "distinct (map ?f zs)" if "distinct (map Quant_Value_Score zs)"
    for zs :: "asset_row list"
    using that by (simp add: distinct_map inj_on_def)
  have same: "filter (\<lambda>x. ?f k = ?f x) ?ys = filter (\<lambda>x. ?f k = ?f x) rows"
    if "k \<in> set ?ys" for k
  proof -
    have "k \<in> set rows"
      using that perm by (metis mset_eq_setD)
    then show ?thesis
      using filter_same_key [OF dist_neg [OF dist] that]
        filter_same_key [OF dist_neg [OF assms(2)], of k]
      by simp
  qed
  have "sorted (map ?f ?ys)"
    using down by (simp add: sorted_wrt_map)
  with perm same have "sort_key ?f rows = ?ys"
    by (rule properties_for_sort_key)
  then show ?thesis
    by (simp add: stable_sort_descending_def)
qed

lemma surviving_code:
  assumes "0 \<le> min_piotroski_score a" and "0 \<le> min_quant_value_score a"
  shows "(let df = (if min_piotroski_score a > 0
                    then filter (\<lambda>r. Piotroski_F_Score r \<ge> min_piotroski_score a) rows
                    else rows)
          in if min_quant_value_score a > 0
             then filter (\<lambda>r. Quant_Value_Score r \<ge> min_quant_value_score a) df
             else df) = surviving a rows"
  using assms by (auto simp add: surviving_def Let_def not_less intro!: filter_cong)

text \<open>
  The selected tickers are those of the specification's steps whenever the order of the
  sorted rows is settled by the scores alone: with the filters in their documented ranges
  (minimum scores and maximum number of assets not negative), with a sorting routine that
  keeps pandas' promise, and with no two surviving records of equal value score. The order
  of records with equal scores is the sorting routine's, which is not part of the script.
\<close>

lemma selection_without_ties:
  assumes "sorts_descending sort_values"
    and "0 \<le> min_piotroski_score a" and "0 \<le> min_quant_value_score a"
    and "0 \<le> max_selected_assets a"
    and "distinct (map Quant_Value_Score (surviving a rows))"
  shows "select_assets sort_values a rows = select_assets_spec a rows"
proof -
  have sorted_same: "sort_values (surviving a rows) = stable_sort_descending (surviving a rows)"
    using assms(1,5) by (rule descending_sort_unique)
  have head: "df_head xs n = take (nat n) xs" if "0 \<le> n" for xs :: "asset_row list" and n
    using that by (simp add: df_head_def py_slice_to_def)
  have top: "df_head xs (top_n_quant_value a) = take (nat (top_n_quant_value a)) xs"
    if "top_n_quant_value a > 0" for xs :: "asset_row list"
    using that by (simp add: head)
  have "select_assets sort_values a rows =
      map row_ticker (df_head
        (if top_n_quant_value a > 0
         then df_head (sort_values (surviving a rows)) (top_n_quant_value a)
         else sort_values (surviving a rows))
        (max_selected_assets a))"
    unfolding select_assets_def Let_def
    using surviving_code [OF assms(2,3), of rows, unfolded Let_def] by simp
  then show ?thesis
    using assms(4) top by (simp add: select_assets_spec_def Let_def sorted_same head)
qed

text \<open>The stable sort keeps pandas' promise; with it the selection is the specification's.\<close>

lemma stable_sort_descending_promise: "sorts_descending stable_sort_descending"
proof -
  have down: "sorted_wrt (\<lambda>r s. Quant_Value_Score r \<ge> Quant_Value_Score s)
      (sort_key (\<lambda>r. - Quant_Value_Score r) rows)" for rows
    using sorted_sort_key [of "\<lambda>r. - Quant_Value_Score r" rows]
    by (simp add: sorted_wrt_map)
  show ?thesis
    by (simp add: sorts_descending_def stable_sort_descending_def down)
qed

lemma selection_example:
  "select_assets stable_sort_descending quality_args ranked_rows = [''C'', ''A''] \<and>
   select_assets_spec quality_args ranked_rows = [''C'', ''A'']"
proof -
  have kept: "surviving quality_args ranked_rows =
     [\<lparr>row_ticker = ''A'', Piotroski_F_Score = 7, Quant_Value_Score = 1 / 4\<rparr>,
      \<lparr>row_ticker = ''C'', Piotroski_F_Score = 8, Quant_Value_Score = 1 / 2\<rparr>]"
    by (simp add: surviving_def quality_args_def default_args_def ranked_rows_def)
  have spec: "select_assets_spec quality_args ranked_rows = [''C'', ''A'']"
    unfolding select_assets_spec_def kept
    by (simp add: stable_sort_descending_def quality_args_def default_args_def)
  have no_ties: "distinct (map Quant_Value_Score (surviving quality_args ranked_rows))"
    by (simp add: kept)
  have "select_assets stable_sort_descending quality_args ranked_rows =
        select_assets_spec quality_args ranked_rows"
    by (rule selection_without_ties [OF stable_sort_descending_promise _ _ _ no_ties])
      (simp_all add: quality_args_def default_args_def)
  then show ?thesis
    using spec by simp
qed

section \<open>The main loop: the claims\<close>

lemma sim_day_dates:
  assumes "\<forall>s \<in> set (portfolio_history st). snap_date s < d"
  shows "map snap_date (portfolio_history (sim_day df d st)) =
         map snap_date (portfolio_history st) @ [d]"
proof (cases "portfolio_history st = []")
  case True
  then show ?thesis
    by (simp add: sim_day_def Let_def split: prod.split)
next
  case False
  then have "snap_date (last (portfolio_history st)) < d"
    using assms by simp
  with False show ?thesis
    by (simp add: sim_day_def Let_def split: prod.split)
qed

lemma cash_day_dates:
  "map snap_date (portfolio_history (cash_day d st)) =
   map snap_date (portfolio_history st) @ [d]"
  by (simp add: cash_day_def)

lemma fold_appends_dates:
  assumes "\<And>d st. \<forall>s \<in> set (portfolio_history st). snap_date s < d \<Longrightarrow>
      map snap_date (portfolio_history (f d st)) = map snap_date (portfolio_history st) @ [d]"
    and "sorted_wrt (<) ds"
    and "\<forall>s \<in> set (portfolio_history st). \<forall>d \<in> set ds. snap_date s < d"
  shows "map snap_date (portfolio_history (fold f ds st)) =
         map snap_date (portfolio_history st) @ ds"
  using assms(2,3)
proof (induction ds arbitrary: st)
  case Nil
  show ?case by simp
next
  case (Cons d ds)
  have step: "map snap_date (portfolio_history (f d st)) =
      map snap_date (portfolio_history st) @ [d]"
    using Cons.prems(2) by (intro assms(1)) simp
  have "\<forall>s \<in> set (portfolio_history (f d st)). \<forall>d' \<in> set ds. snap_date s < d'"
  proof (intro ballI)
    fix s d' assume s: "s \<in> set (portfolio_history (f d st))" and d': "d' \<in> set ds"
    from s have "snap_date s \<in> set (map snap_date (portfolio_history (f d st)))"
      by simp
    then have "snap_date s \<in> snap_date ` set (portfolio_history st) \<or> snap_date s = d"
      unfolding step by auto
    then show "snap_date s < d'"
      using Cons.prems d' by auto
  qed
  moreover have "sorted_wrt (<) ds"
    using Cons.prems(1) by simp
  ultimately have "map snap_date (portfolio_history (fold f ds (f d st))) =
      map snap_date (portfolio_history (f d st)) @ ds"
    by (rule Cons.IH [rotated])
  then show ?case
    by (simp add: step)
qed

lemma business_days_props:
  "sorted_wrt (<) (business_days s e)" "\<forall>d \<in> set (business_days s e). s \<le> d \<and> d \<le> e"
  unfolding business_days_def
  by (auto intro: sorted_wrt_filter strictly_increasing_upto)

lemma simulate_period_dates:
  assumes "\<forall>s \<in> set (portfolio_history st). snap_date s < start"
  shows "map snap_date (portfolio_history (simulate_period prices start e st)) =
         map snap_date (portfolio_history st) @ business_days start e"
proof -
  have before: "\<forall>s \<in> set (portfolio_history st). \<forall>d \<in> set (business_days start e). snap_date s < d"
    using assms business_days_props(2) [of start e] by fastforce
  show ?thesis
  proof (cases "current_holdings st = []")
    case True
    have "map snap_date (portfolio_history (fold cash_day (business_days start e) st)) =
        map snap_date (portfolio_history st) @ business_days start e"
      using cash_day_dates business_days_props(1) before by (rule fold_appends_dates)
    then show ?thesis
      using True by (simp add: simulate_period_def)
  next
    case False
    have "map snap_date (portfolio_history (fold (sim_day df) (business_days start e) st)) =
        map snap_date (portfolio_history st) @ business_days start e" for df
      using sim_day_dates business_days_props(1) before by (rule fold_appends_dates)
    then show ?thesis
      using False by (simp add: simulate_period_def Let_def)
  qed
qed

lemma rebalance_history:
  "portfolio_history (fst (rebalance a prices d st selected)) = portfolio_history st"
  by (simp add: rebalance_def trade_executor_def Let_def)


lemma rebalance_loop_dates:
  assumes "sorted_wrt (<) dates"
    and "\<forall>d \<in> set dates. fundamentals d \<noteq> []"
    and "\<forall>s \<in> set (portfolio_history st). \<forall>d \<in> set dates. snap_date s < d"
  shows "map snap_date
           (portfolio_history (rebalance_loop sort_values a prices fundamentals dates st)) =
         map snap_date (portfolio_history st) @ covered_days (end_date_backtest a) dates"
  using assms
proof (induction dates arbitrary: st)
  case Nil
  show ?case by simp
next
  case (Cons d later)
  define st1 where
    "st1 = fst (rebalance a prices d st (select_assets sort_values a (fundamentals d)))"
  define e where
    "e = (case later of [] \<Rightarrow> end_date_backtest a | next_date # _ \<Rightarrow> next_date - 1)"
  define st2 where "st2 = simulate_period prices d e st1"
  have hist1: "portfolio_history st1 = portfolio_history st"
    by (simp add: st1_def rebalance_history)
  have "\<forall>s \<in> set (portfolio_history st1). snap_date s < d"
    using Cons.prems(3) by (simp add: hist1)
  then have dates2: "map snap_date (portfolio_history st2) =
      map snap_date (portfolio_history st) @ business_days d e"
    unfolding st2_def by (simp add: simulate_period_dates hist1)
  have unfold: "rebalance_loop sort_values a prices fundamentals (d # later) st =
      rebalance_loop sort_values a prices fundamentals later st2"
    using Cons.prems(2) by (simp add: Let_def st2_def st1_def e_def)
  show ?case
  proof (cases later)
    case Nil
    have "e = end_date_backtest a"
      by (simp add: e_def Nil)
    then show ?thesis
      unfolding unfold using Nil by (simp add: dates2)
  next
    case (Cons d' ds)
    have e: "e = d' - 1"
      by (simp add: e_def Cons)
    have sorted_later: "sorted_wrt (<) later" and fund: "\<forall>x \<in> set later. fundamentals x \<noteq> []"
      using Cons.prems(1,2) by simp_all
    have before: "\<forall>s \<in> set (portfolio_history st2). \<forall>x \<in> set later. snap_date s < x"
    proof (intro ballI)
      fix s x assume s: "s \<in> set (portfolio_history st2)" and x: "x \<in> set later"
      have d'x: "d' \<le> x"
        using x \<open>sorted_wrt (<) (d # later)\<close> Cons by auto
      from s have "snap_date s \<in> set (map snap_date (portfolio_history st2))"
        by simp
      then consider "snap_date s \<in> snap_date ` set (portfolio_history st)"
        | "snap_date s \<in> set (business_days d e)"
        unfolding dates2 by auto
      then show "snap_date s < x"
      proof cases
        case 1
        then show ?thesis using \<open>\<forall>s\<in>set (portfolio_history st). \<forall>d\<in>set (d # later). snap_date s < d\<close> x by auto
      next
        case 2
        then have "snap_date s \<le> d' - 1"
          using business_days_props(2) [of d e] by (simp add: e)
        then show ?thesis using d'x by simp
      qed
    qed
    have "map snap_date (portfolio_history
        (rebalance_loop sort_values a prices fundamentals later st2)) =
        map snap_date (portfolio_history st2) @ covered_days (end_date_backtest a) later"
      using sorted_later fund before by (rule Cons.IH)
    then show ?thesis
      unfolding unfold by (simp add: dates2 e Cons)
  qed
qed

lemma business_days_split:
  assumes "s \<le> m" and "m \<le> e"
  shows "business_days s (m - 1) @ business_days m e = business_days s e"
proof -
  have "[s..e] = [s..m - 1] @ [m..e]"
    using assms by (rule upto_split1)
  then show ?thesis
    by (simp add: business_days_def)
qed

lemma covered_days_all:
  assumes "sorted_wrt (<) (d # dates)" and "\<forall>x \<in> set (d # dates). x \<le> e"
  shows "covered_days e (d # dates) = business_days d e"
  using assms
proof (induction dates arbitrary: d)
  case Nil
  show ?case by simp
next
  case (Cons d' dates)
  have "covered_days e (d' # dates) = business_days d' e"
    using Cons.prems by (intro Cons.IH) simp_all
  moreover have "d \<le> d'" "d' \<le> e"
    using Cons.prems by simp_all
  ultimately show ?case
    by (simp add: business_days_split)
qed

lemma get_rebalance_dates_Inr:
  assumes "get_rebalance_dates s e frequency = Inr ds"
  shows "\<forall>d \<in> set ds. s \<le> d \<and> d \<le> e" and "sorted_wrt (<) ds"
proof -
  from assms obtain freq where "ds = date_range s e freq"
    by (auto simp add: get_rebalance_dates_def filtered_range_merged split: if_splits)
  then show "\<forall>d \<in> set ds. s \<le> d \<and> d \<le> e" and "sorted_wrt (<) ds"
    using date_range_props [of s e freq] by simp_all
qed

text \<open>
  When the fundamentals provider never returns an empty table, the history has exactly one
  snapshot for every business day from the first rebalance date to the end of the backtest,
  whatever the price provider returns and whichever branch each day takes.
\<close>

lemma history_without_gaps:
  assumes "get_rebalance_dates (start_date_backtest a) (end_date_backtest a)
             (rebalance_frequency a) = Inr (first_date # later)"
    and "\<forall>d \<in> set (first_date # later). fundamentals d \<noteq> []"
  shows "\<exists>history. run_backtest sort_values a prices fundamentals = Inr history \<and>
           map snap_date history = business_days first_date (end_date_backtest a)"
proof -
  let ?s = "start_date_backtest a" and ?e = "end_date_backtest a"
  have range: "\<forall>d \<in> set (first_date # later). ?s \<le> d \<and> d \<le> ?e"
    and sorted: "sorted_wrt (<) (first_date # later)"
    using get_rebalance_dates_Inr [OF assms(1)] by simp_all
  have "map snap_date (portfolio_history
      (rebalance_loop sort_values a prices fundamentals (first_date # later)
         \<lparr>portfolio_history = [], current_portfolio_value = Some (initial_portfolio_value a),
          current_holdings = []\<rparr>)) =
      map snap_date (portfolio_history
         \<lparr>portfolio_history = [], current_portfolio_value = Some (initial_portfolio_value a),
          current_holdings = []\<rparr>) @ covered_days ?e (first_date # later)"
    using sorted assms(2) by (rule rebalance_loop_dates) simp
  moreover have "covered_days ?e (first_date # later) = business_days first_date ?e"
    using sorted range by (intro covered_days_all) simp_all
  ultimately show ?thesis
    by (simp add: run_backtest_def assms(1))
qed


text \<open>
  C2 fails on the code. The run below has one rebalance date, Monday 2020-02-03, and three
  business days from that date to the end of the backtest; the fundamentals provider
  returns an empty table, the \<^verbatim>\<open>continue\<close> of line 174 skips the simulation of the
  period, and the history has no snapshot at all.
\<close>

theorem empty_fundamentals_leave_gap:
  "get_rebalance_dates (start_date_backtest short_args) (end_date_backtest short_args)
     (rebalance_frequency short_args) = Inr [18295] \<and>
   business_days 18295 (end_date_backtest short_args) = [18295, 18296, 18297] \<and>
   run_backtest stable_sort_descending short_args both_priced no_fundamentals = Inr []"
proof -
  have dates: "get_rebalance_dates (start_date_backtest short_args)
      (end_date_backtest short_args) (rebalance_frequency short_args) = Inr [18295]"
    by (simp add: short_args_def default_args_def monthly_dates_early_2020)
  have days: "business_days 18295 (end_date_backtest short_args) = [18295, 18296, 18297]"
    by (simp add: short_args_def default_args_def business_days_def weekday_def)
  have "run_backtest stable_sort_descending short_args both_priced no_fundamentals = Inr []"
    by (simp add: run_backtest_def dates no_fundamentals_def)
  with dates days show ?thesis
    by simp
qed


end
